theory Spec2Isabelle
  imports Complex_Main
begin


section \<open>Tensors\<close>

text \<open>
  The program (\<^verbatim>\<open>decalib/deca.py\<close>, class \<^verbatim>\<open>DECA\<close>) computes on torch tensors. A tensor
  is modelled as torch stores a contiguous one: its shape and its elements in row-major
  order. Elements are a type parameter for the operations that only move data (slicing,
  reshaping, concatenation); arithmetic is done on \<^typ>\<open>real\<close>, so rounding and the
  non-finite values of 32-bit floats are outside the model.

  The exceptions the modelled code can raise are values of \<open>error\<close>; a fallible
  operation returns \<open>error + 'a\<close>, with \<open>Inl\<close> for the exception.
\<close>

datatype error =
    RuntimeError
  | IndexError
  | AssertionError
  | ZeroDivisionError
  | ValueError
  | KeyError string
  | UnboundLocalError string

record 'a tensor =
  shape :: "nat list"
  data :: "'a list"

definition wf :: "'a tensor \<Rightarrow> bool" where
  "wf t \<longleftrightarrow> length (data t) = prod_list (shape t)"

text \<open>Row-major position of a multi-index, and the multi-index of a position.\<close>

fun offset :: "nat list \<Rightarrow> nat list \<Rightarrow> nat" where
  "offset (d # ds) (i # is) = i * prod_list ds + offset ds is"
| "offset _ _ = 0"

fun unravel :: "nat list \<Rightarrow> nat \<Rightarrow> nat list" where
  "unravel [] k = []"
| "unravel (d # ds) k = (k div prod_list ds) # unravel ds (k mod prod_list ds)"

definition valid :: "nat list \<Rightarrow> nat list \<Rightarrow> bool" where
  "valid sh idx \<longleftrightarrow> list_all2 (<) idx sh"

text \<open>
  \<open>elt t idx\<close> reads one element. It is only ever applied to an index that is valid for
  the shape of \<open>t\<close>: the operations below compute their indices from a shape they have
  checked.
\<close>

definition elt :: "'a tensor \<Rightarrow> nat list \<Rightarrow> 'a" where
  "elt t idx = data t ! offset (shape t) idx"

definition tabulate :: "nat list \<Rightarrow> (nat list \<Rightarrow> 'a) \<Rightarrow> 'a tensor" where
  "tabulate sh f = \<lparr>shape = sh, data = map (\<lambda>k. f (unravel sh k)) [0..<prod_list sh]\<rparr>"

definition ebind :: "error + 'a \<Rightarrow> ('a \<Rightarrow> error + 'b) \<Rightarrow> error + 'b" where
  "ebind m f = (case m of Inl e \<Rightarrow> Inl e | Inr x \<Rightarrow> f x)"

subsection \<open>Slicing, reshaping, concatenation\<close>

text \<open>
  Python's slice bounds: a negative bound counts from the end, and every bound is clipped
  to the dimension (\<^verbatim>\<open>t[:, start:end]\<close> never raises for a bound out of range; an empty
  range gives an empty slice). \<open>None\<close> is an omitted bound.
\<close>

definition norm_index :: "int \<Rightarrow> nat \<Rightarrow> nat" where
  "norm_index i n = (if i < 0 then nat (i + int n) else min (nat i) n)"

definition slice_dim :: "nat \<Rightarrow> int option \<Rightarrow> int option \<Rightarrow> 'a tensor \<Rightarrow> error + 'a tensor" where
  "slice_dim k start stop t =
     (if k < length (shape t) then
        let n = shape t ! k;
            s = (case start of None \<Rightarrow> 0 | Some i \<Rightarrow> norm_index i n);
            e = (case stop of None \<Rightarrow> n | Some i \<Rightarrow> norm_index i n)
        in Inr (tabulate ((shape t)[k := e - s]) (\<lambda>idx. elt t (idx[k := idx ! k + s])))
      else Inl IndexError)"

text \<open>\<^verbatim>\<open>t.reshape(sh)\<close>: the same elements in the same order; torch raises when the counts differ.\<close>

definition reshape :: "nat list \<Rightarrow> 'a tensor \<Rightarrow> error + 'a tensor" where
  "reshape sh t =
     (if prod_list sh = prod_list (shape t) then Inr (t\<lparr>shape := sh\<rparr>) else Inl RuntimeError)"

text \<open>\<^verbatim>\<open>torch.flatten(t, 1)\<close>: all dimensions after the first become one.\<close>

definition flatten1 :: "'a tensor \<Rightarrow> 'a tensor" where
  "flatten1 t = t\<lparr>shape := [hd (shape t), prod_list (tl (shape t))]\<rparr>"

text \<open>
  \<^verbatim>\<open>torch.cat(ts, k)\<close>: the list must not be empty and the tensors must agree in every
  dimension but \<open>k\<close>. \<open>locate ws j\<close> finds the tensor and the position inside it that
  holds position \<open>j\<close> of the result.
\<close>

fun locate :: "nat list \<Rightarrow> nat \<Rightarrow> nat \<times> nat" where
  "locate [] j = (0, j)"
| "locate (w # ws) j =
     (if j < w then (0, j) else (case locate ws (j - w) of (i, j') \<Rightarrow> (Suc i, j')))"

definition tcat :: "nat \<Rightarrow> 'a tensor list \<Rightarrow> error + 'a tensor" where
  "tcat k ts =
     (case ts of
        [] \<Rightarrow> Inl RuntimeError
      | t # _ \<Rightarrow>
          if k < length (shape t) \<and> list_all (\<lambda>u. (shape u)[k := 0] = (shape t)[k := 0]) ts
          then Inr (tabulate ((shape t)[k := sum_list (map (\<lambda>u. shape u ! k) ts)])
                 (\<lambda>idx. case locate (map (\<lambda>u. shape u ! k) ts) (idx ! k) of
                          (i, j) \<Rightarrow> elt (ts ! i) (idx[k := j])))
          else Inl RuntimeError)"

section \<open>Parameter codec: \<^verbatim>\<open>DECA.decompose_code\<close>\<close>

text \<open>
  \<^verbatim>\<open>
  def decompose_code(self, code, num_dict):
      code_dict = {}
      start = 0
      for key in num_dict:
          end = start+int(num_dict[key])
          code_dict[key] = code[:, start:end]
          start = end
          if key == 'light':
              code_dict[key] = code_dict[key].reshape(code_dict[key].shape[0], 9, 3)
      return code_dict
  \<close>
  \<open>num_dict\<close> is a Python dictionary, iterated in insertion order: an association list
  whose keys are distinct. The loop is a recursion over it that threads \<open>start\<close> and
  \<open>code_dict\<close>.
\<close>

fun decompose_loop ::
  "'a tensor \<Rightarrow> (string \<times> int) list \<Rightarrow> int \<Rightarrow> (string \<rightharpoonup> 'a tensor) \<Rightarrow> error + (string \<rightharpoonup> 'a tensor)"
where
  "decompose_loop code [] start code_dict = Inr code_dict"
| "decompose_loop code ((key, n) # rest) start code_dict =
     (let stop = start + n in
      ebind (slice_dim 1 (Some start) (Some stop) code) (\<lambda>blk.
        if key = ''light''
        then ebind (reshape [hd (shape blk), 9, 3] blk) (\<lambda>light.
               decompose_loop code rest stop (code_dict(key \<mapsto> light)))
        else decompose_loop code rest stop (code_dict(key \<mapsto> blk))))"

definition decompose_code ::
  "'a tensor \<Rightarrow> (string \<times> int) list \<Rightarrow> error + (string \<rightharpoonup> 'a tensor)"
where
  "decompose_code code num_dict = decompose_loop code num_dict 0 Map.empty"

subsection \<open>Notions used to state the codec's properties\<close>

text \<open>
  The columns \<open>s, \<dots>, s + n - 1\<close> of a matrix, and the consecutive column blocks of
  widths \<open>ws\<close> starting at column \<open>s\<close>.
\<close>

definition col_block :: "'a tensor \<Rightarrow> nat \<Rightarrow> nat \<Rightarrow> 'a tensor" where
  "col_block code s n = tabulate [hd (shape code), n] (\<lambda>idx. elt code (idx[1 := idx ! 1 + s]))"

fun blocks_of :: "'a tensor \<Rightarrow> nat list \<Rightarrow> nat \<Rightarrow> 'a tensor list" where
  "blocks_of code [] s = []"
| "blocks_of code (n # ws) s = col_block code s n # blocks_of code ws (s + n)"

text \<open>A block as a matrix again: the lighting block is flattened back, the others are kept.\<close>

definition block_flat :: "string \<Rightarrow> 'a tensor \<Rightarrow> 'a tensor" where
  "block_flat key t = (if key = ''light'' then flatten1 t else t)"

text \<open>
  \<open>light_fits B W start num_dict\<close>: every lighting entry of \<open>num_dict\<close> cuts, out of a
  matrix of \<open>B\<close> rows and \<open>W\<close> columns, a slice with as many elements as a
  \<open>B \<times> 9 \<times> 3\<close> tensor. The slice is the declared range clipped to the columns that exist.
\<close>

fun light_fits :: "nat \<Rightarrow> nat \<Rightarrow> int \<Rightarrow> (string \<times> int) list \<Rightarrow> bool" where
  "light_fits B W start [] = True"
| "light_fits B W start ((key, n) # rest) =
     ((key = ''light'' \<longrightarrow> B * (norm_index (start + n) W - norm_index start W) = B * 27)
      \<and> light_fits B W (start + n) rest)"

text \<open>A parameter row of width 30: a camera block of width 3 and a lighting block of width 27.\<close>

definition code30 :: "int tensor" where
  "code30 = \<lparr>shape = [1, 30], data = [1, 2, 3, 4, 5, 6, 7, 8, 9, 10, 11, 12, 13, 14, 15,
      16, 17, 18, 19, 20, 21, 22, 23, 24, 25, 26, 27, 28, 29, 30]\<rparr>"

section \<open>Element-wise arithmetic\<close>

text \<open>
  torch's broadcasting: the shapes are aligned at the last dimension, a missing leading
  dimension counts as 1, and in every dimension the sizes must be equal or one of them 1;
  otherwise the operation raises. An operand of size 1 in a dimension is read at
  position 0 there.
\<close>

definition pad_shape :: "nat \<Rightarrow> nat list \<Rightarrow> nat list" where
  "pad_shape r sh = replicate (r - length sh) 1 @ sh"

fun bcast_dims :: "nat list \<Rightarrow> nat list \<Rightarrow> nat list option" where
  "bcast_dims [] [] = Some []"
| "bcast_dims (a # as) (b # bs) =
     (if a = b \<or> b = 1 then map_option ((#) a) (bcast_dims as bs)
      else if a = 1 then map_option ((#) b) (bcast_dims as bs)
      else None)"
| "bcast_dims _ _ = None"

definition bcast_shape :: "nat list \<Rightarrow> nat list \<Rightarrow> nat list option" where
  "bcast_shape sa sb =
     (let r = max (length sa) (length sb) in bcast_dims (pad_shape r sa) (pad_shape r sb))"

definition bcast_index :: "nat list \<Rightarrow> nat list \<Rightarrow> nat list" where
  "bcast_index sh idx =
     map2 (\<lambda>d i. if d = 1 then 0 else i) sh (drop (length idx - length sh) idx)"

definition binop :: "('a \<Rightarrow> 'b \<Rightarrow> 'c) \<Rightarrow> 'a tensor \<Rightarrow> 'b tensor \<Rightarrow> error + 'c tensor" where
  "binop f a b =
     (case bcast_shape (shape a) (shape b) of
        None \<Rightarrow> Inl RuntimeError
      | Some sh \<Rightarrow>
          Inr (tabulate sh
                (\<lambda>idx. f (elt a (bcast_index (shape a) idx)) (elt b (bcast_index (shape b) idx)))))"

definition tmul :: "real tensor \<Rightarrow> real tensor \<Rightarrow> error + real tensor" where
  "tmul = binop (*)"

definition tadd :: "real tensor \<Rightarrow> real tensor \<Rightarrow> error + real tensor" where
  "tadd = binop (+)"

text \<open>An operation with a Python scalar (\<^verbatim>\<open>1 - t\<close>, \<^verbatim>\<open>-t\<close>, \<^verbatim>\<open>t < 0.1\<close>) acts on every element.\<close>

definition tmap :: "('a \<Rightarrow> 'b) \<Rightarrow> 'a tensor \<Rightarrow> 'b tensor" where
  "tmap f t = \<lparr>shape = shape t, data = map f (data t)\<rparr>"

definition all_elts :: "('a \<Rightarrow> bool) \<Rightarrow> 'a tensor \<Rightarrow> bool" where
  "all_elts P t = list_all P (data t)"

section \<open>Texture compositing in \<^verbatim>\<open>DECA.decode\<close> and \<^verbatim>\<open>DECA.decode_coarse\<close>\<close>

text \<open>
  \<^verbatim>\<open>t[:, :3, :, :]\<close>: four indices need a tensor of at least four dimensions.
\<close>

definition chan3 :: "'a tensor \<Rightarrow> error + 'a tensor" where
  "chan3 t = (if length (shape t) < 4 then Inl IndexError else slice_dim 1 None (Some 3) t)"

text \<open>
  The same lines stand in \<^verbatim>\<open>decode\<close> (309 to 317) and in \<^verbatim>\<open>decode_coarse\<close> (221 to 229):
  \<^verbatim>\<open>
  if self.cfg.model.use_tex:
      uv_face_eye_mask = self.uv_face_eye_mask * uv_gt_mask
      uv_texture_gt = uv_gt[:,:3,:,:]*uv_face_eye_mask + (uv_texture[:,:3,:,:]*(1-uv_face_eye_mask))
  else:
      uv_face_eye_mask = self.uv_face_eye_mask * uv_gt_mask
      uv_texture_gt = uv_gt[:,:3,:,:]
  \<close>
  Both variables are used afterwards (the mask as \<^verbatim>\<open>face_mask\<close> of the renderer), so the
  model returns the pair \<open>(uv_face_eye_mask, uv_texture_gt)\<close>. \<open>face_eye_mask\<close> is the static
  mask \<^verbatim>\<open>self.uv_face_eye_mask\<close>, \<open>uv_gt\<close> the colour sampled from the image, \<open>uv_gt_mask\<close>
  the validity buffer, \<open>uv_texture\<close> the synthesized texture \<^verbatim>\<open>albedo*uv_shading\<close>.
\<close>

definition texture_compositing ::
  "bool \<Rightarrow> real tensor \<Rightarrow> real tensor \<Rightarrow> real tensor \<Rightarrow> real tensor
     \<Rightarrow> error + (real tensor \<times> real tensor)"
where
  "texture_compositing use_tex face_eye_mask uv_gt uv_gt_mask uv_texture =
     (if use_tex then
        ebind (tmul face_eye_mask uv_gt_mask) (\<lambda>uv_face_eye_mask.
        ebind (chan3 uv_gt) (\<lambda>gt3.
        ebind (tmul gt3 uv_face_eye_mask) (\<lambda>sampled.
        ebind (chan3 uv_texture) (\<lambda>tex3.
        ebind (tmul tex3 (tmap (\<lambda>m. 1 - m) uv_face_eye_mask)) (\<lambda>synthesized.
        ebind (tadd sampled synthesized) (\<lambda>uv_texture_gt.
        Inr (uv_face_eye_mask, uv_texture_gt)))))))
      else
        ebind (tmul face_eye_mask uv_gt_mask) (\<lambda>uv_face_eye_mask.
        ebind (chan3 uv_gt) (\<lambda>uv_texture_gt.
        Inr (uv_face_eye_mask, uv_texture_gt))))"


subsection \<open>A one-texel atlas\<close>

text \<open>
  One batch entry, three colour channels, a \<open>1 \<times> 1\<close> atlas: the static mask set or clear
  at the texel, a sampled colour, a validity buffer that covers the texel, and a
  synthesized colour.
\<close>

definition mask_one :: "real tensor" where "mask_one = \<lparr>shape = [1, 1, 1, 1], data = [1]\<rparr>"

definition mask_zero :: "real tensor" where "mask_zero = \<lparr>shape = [1, 1, 1, 1], data = [0]\<rparr>"

definition texel_gt :: "real tensor" where "texel_gt = \<lparr>shape = [1, 3, 1, 1], data = [1/2, 1/4, 3/4]\<rparr>"

definition texel_valid :: "real tensor" where "texel_valid = \<lparr>shape = [1, 3, 1, 1], data = [1, 1, 1]\<rparr>"

definition texel_synth :: "real tensor" where "texel_synth = \<lparr>shape = [1, 3, 1, 1], data = [1/8, 1/8, 1/8]\<rparr>"


text \<open>A sampled colour with a fourth (alpha) channel, and a validity buffer of four channels.\<close>

definition texel_rgba :: "real tensor" where
  "texel_rgba = \<lparr>shape = [1, 4, 1, 1], data = [1/2, 1/4, 3/4, 1]\<rparr>"

definition texel_rgba_valid :: "real tensor" where
  "texel_rgba_valid = \<lparr>shape = [1, 4, 1, 1], data = [1, 1, 1, 1]\<rparr>"

section \<open>Geometric projection in \<^verbatim>\<open>DECA.decode\<close>\<close>

text \<open>
  \<^verbatim>\<open>util.batch_orth_proj\<close> is not among the source files. The spec (4.2) has it project
  a point set of shape \<open>(batch, N, 3)\<close> under a camera vector \<open>(scale, tx, ty)\<close> per batch
  entry: ``apply uniform scale and 2D translation to the first two coordinates, leave a
  third coordinate usable for occlusion ordering''. The spec does not say in which order
  scale and translation are applied, so the model takes the order as a parameter and the
  theorems hold for both.
\<close>

datatype convention = ScaleThenTranslate | TranslateThenScale

text \<open>
  Modelled from the spec: one of the first two coordinates under \<^verbatim>\<open>util.batch_orth_proj\<close>,
  the uniform scale and the translation \<open>t\<close> of that coordinate applied to it.
\<close>

definition place :: "convention \<Rightarrow> real \<Rightarrow> real \<Rightarrow> real \<Rightarrow> real" where
  "place conv scale t x =
     (case conv of
        ScaleThenTranslate \<Rightarrow> scale * x + t
      | TranslateThenScale \<Rightarrow> scale * (x + t))"

text \<open>
  Modelled from the spec: \<^verbatim>\<open>util.batch_orth_proj\<close>, which is missing from the source
  files. The first two coordinates of every point are placed with the scale and the
  translation of the point's batch entry, the third coordinate is left as it is; other
  shapes than \<open>(batch, N, 3)\<close> against \<open>(batch, 3)\<close> are refused.
\<close>

definition batch_orth_proj ::
  "convention \<Rightarrow> real tensor \<Rightarrow> real tensor \<Rightarrow> error + real tensor"
where
  "batch_orth_proj conv X camera =
     (case (shape X, shape camera) of
        ([B, N, C], [B', K]) \<Rightarrow>
          if B = B' \<and> C = 3 \<and> K = 3 then
            Inr (tabulate [B, N, 3] (\<lambda>idx.
              let b = idx ! 0; c = idx ! 2; scale = elt camera [b, 0] in
              if c < 2 then place conv scale (elt camera [b, c + 1]) (elt X idx)
              else elt X idx))
          else Inl RuntimeError
      | _ \<Rightarrow> Inl RuntimeError)"

text \<open>
  The sign convention is in the source, after each projection (lines 270 to 272):
  \<^verbatim>\<open>
  landmarks2d = util.batch_orth_proj(landmarks2d, codedict['cam'])[:,:,:2]; landmarks2d[:,:,1:] = -landmarks2d[:,:,1:]
  landmarks3d = util.batch_orth_proj(landmarks3d, codedict['cam']); landmarks3d[:,:,1:] = -landmarks3d[:,:,1:]
  trans_verts = util.batch_orth_proj(verts, codedict['cam']); trans_verts[:,:,1:] = -trans_verts[:,:,1:]
  \<close>
  The assignment \<^verbatim>\<open>t[:,:,1:] = -t[:,:,1:]\<close> negates every coordinate but the first.
\<close>

definition negate_from1 :: "real tensor \<Rightarrow> error + real tensor" where
  "negate_from1 t =
     (if length (shape t) < 3 then Inl IndexError
      else Inr (tabulate (shape t) (\<lambda>idx. if 1 \<le> idx ! 2 then - elt t idx else elt t idx)))"

text \<open>
  \<open>proj\<close> is \<^verbatim>\<open>util.batch_orth_proj\<close>; \<^verbatim>\<open>p[:,:,:2]\<close> needs three dimensions.
\<close>

definition first_two_coords :: "'a tensor \<Rightarrow> error + 'a tensor" where
  "first_two_coords p = (if length (shape p) < 3 then Inl IndexError else slice_dim 2 None (Some 2) p)"

definition project_landmarks2d ::
  "(real tensor \<Rightarrow> real tensor \<Rightarrow> error + real tensor) \<Rightarrow> real tensor \<Rightarrow> real tensor
     \<Rightarrow> error + real tensor"
where
  "project_landmarks2d proj landmarks2d cam =
     ebind (proj landmarks2d cam) (\<lambda>p.
     ebind (first_two_coords p) negate_from1)"

definition project_points ::
  "(real tensor \<Rightarrow> real tensor \<Rightarrow> error + real tensor) \<Rightarrow> real tensor \<Rightarrow> real tensor
     \<Rightarrow> error + real tensor"
where
  "project_points proj verts cam =
     ebind (proj verts cam) negate_from1"

text \<open>The point set with the vertical (second) coordinate of every point negated.\<close>

definition negate_vertical :: "real tensor \<Rightarrow> real tensor" where
  "negate_vertical X = tabulate (shape X) (\<lambda>idx. if idx ! 2 = 1 then - elt X idx else elt X idx)"

text \<open>One point, and a camera of scale 1 shifted vertically by 1.\<close>

definition point_up :: "real tensor" where
  "point_up = \<lparr>shape = [1, 1, 3], data = [0, 1, 0]\<rparr>"

definition point_origin :: "real tensor" where
  "point_origin = \<lparr>shape = [1, 1, 3], data = [0, 0, 0]\<rparr>"

definition cam_shifted :: "real tensor" where
  "cam_shifted = \<lparr>shape = [1, 3], data = [1, 0, 1]\<rparr>"

definition cam_unit :: "real tensor" where
  "cam_unit = \<lparr>shape = [1, 3], data = [1, 0, 0]\<rparr>"

section \<open>Landmark visibility: \<^verbatim>\<open>DECA.visofp\<close>\<close>

text \<open>
  \<^verbatim>\<open>
  def visofp(self, normals):
      normals68 = self.flame.seletec_3d68(normals)
      vis68 = (normals68[:,:,2:] < 0.1).float()
      return vis68
  \<close>
  \<^verbatim>\<open>seletec_3d68\<close> belongs to the shape model, which is not among the source files: it is a
  parameter of the model. \<^verbatim>\<open>t[:,:,2:]\<close> needs three dimensions; the comparison gives a
  Boolean tensor and \<^verbatim>\<open>.float()\<close> turns it into 1.0 and 0.0.
\<close>

definition depth_from2 :: "'a tensor \<Rightarrow> error + 'a tensor" where
  "depth_from2 t = (if length (shape t) < 3 then Inl IndexError else slice_dim 2 (Some 2) None t)"

definition visofp :: "(real tensor \<Rightarrow> real tensor) \<Rightarrow> real tensor \<Rightarrow> error + real tensor" where
  "visofp seletec_3d68 normals =
     (let normals68 = seletec_3d68 normals in
      ebind (depth_from2 normals68) (\<lambda>depth.
      Inr (tmap (\<lambda>z. if z < 1 / 10 then 1 else 0) depth)))"

text \<open>
  In \<^verbatim>\<open>decode\<close> (lines 349 to 352, under \<^verbatim>\<open>vis_lmk\<close>):
  \<^verbatim>\<open>
  landmarks3d_vis = self.visofp(ops['transformed_normals'])
  landmarks3d = torch.cat([landmarks3d, landmarks3d_vis], dim=2)
  \<close>
\<close>

definition landmarks_with_visibility ::
  "(real tensor \<Rightarrow> real tensor) \<Rightarrow> real tensor \<Rightarrow> real tensor \<Rightarrow> error + real tensor"
where
  "landmarks_with_visibility seletec_3d68 landmarks3d transformed_normals =
     ebind (visofp seletec_3d68 transformed_normals) (\<lambda>landmarks3d_vis.
     tcat 2 [landmarks3d, landmarks3d_vis])"

text \<open>
  Two landmarks, the first facing the camera (depth \<open>-1\<close>), the second turned away
  (depth \<open>1/2\<close>); the selection takes the first two vertex normals.
\<close>

definition two_normals :: "real tensor" where
  "two_normals = \<lparr>shape = [1, 3, 3], data = [0, 0, - 1, 0, 0, 1 / 2, 1, 0, 0]\<rparr>"

definition two_landmarks :: "real tensor" where
  "two_landmarks = \<lparr>shape = [1, 2, 3], data = [3, 4, 5, 6, 7, 8]\<rparr>"

definition first_two :: "real tensor \<Rightarrow> real tensor" where
  "first_two t = tabulate [hd (shape t), 2, 3] (elt t)"

section \<open>The object \<^verbatim>\<open>self\<close> and its collaborators\<close>

text \<open>
  The fields of a \<^verbatim>\<open>DECA\<close> object that the modelled methods read: configuration, the
  static assets loaded by \<^verbatim>\<open>_setup_renderer\<close>, and the collaborators whose code is not
  among the source files (renderer, shape model, \<^verbatim>\<open>util\<close>, torch's resampling). A
  collaborator is a function parameter: nothing is assumed about what it returns beyond
  the hypotheses a theorem states. \<open>call\<close> stands for the collaborators that no claim looks
  into, by name.
\<close>

record deca =
  cfg_use_tex :: bool
  image_size :: nat
  uv_size :: nat
  self_uv_face_eye_mask :: "real tensor"
  uv_face_eye_mask_coarse :: "real tensor"
  fixed_uv_dis :: "real tensor"
  render_faces :: "real tensor"
  render_dense_faces :: "real tensor"
  render_world2uv_coarse :: "real tensor \<Rightarrow> real tensor"
  util_vertex_normals :: "real tensor \<Rightarrow> real tensor \<Rightarrow> real tensor"
  F_interpolate :: "real tensor \<Rightarrow> nat list \<Rightarrow> real tensor"
  flame_seletec_3d68 :: "real tensor \<Rightarrow> real tensor"
  util_batch_orth_proj :: "real tensor \<Rightarrow> real tensor \<Rightarrow> error + real tensor"
  call :: "string \<Rightarrow> real tensor list \<Rightarrow> real tensor"

subsection \<open>More tensor operations\<close>

text \<open>
  \<^verbatim>\<open>t.permute(perm)\<close>: dimension \<open>i\<close> of the result is dimension \<open>perm ! i\<close> of \<open>t\<close>.
\<close>

fun index_of :: "'a list \<Rightarrow> 'a \<Rightarrow> nat" where
  "index_of [] x = 0"
| "index_of (y # ys) x = (if x = y then 0 else Suc (index_of ys x))"

definition permute :: "nat list \<Rightarrow> 'a tensor \<Rightarrow> error + 'a tensor" where
  "permute perm t =
     (if sort perm = [0..<length (shape t)]
      then Inr (tabulate (map (\<lambda>p. shape t ! p) perm)
             (\<lambda>idx. elt t (map (\<lambda>j. idx ! index_of perm j) [0..<length perm])))
      else Inl RuntimeError)"

text \<open>
  \<^verbatim>\<open>t.reshape(pre + [-1] + post)\<close>: the free dimension is inferred from the element count;
  torch raises when the known dimensions multiply to 0 or do not divide the count.
\<close>

definition reshape_infer :: "nat list \<Rightarrow> nat list \<Rightarrow> 'a tensor \<Rightarrow> error + 'a tensor" where
  "reshape_infer pre post t =
     (let known = prod_list pre * prod_list post; n = prod_list (shape t) in
      if known = 0 \<or> n mod known \<noteq> 0 then Inl RuntimeError
      else reshape (pre @ [n div known] @ post) t)"

text \<open>\<^verbatim>\<open>t[None, None, :, :]\<close>: two leading dimensions of size 1 before two sliced ones.\<close>

definition unsqueeze2 :: "'a tensor \<Rightarrow> error + 'a tensor" where
  "unsqueeze2 t = (if length (shape t) < 2 then Inl IndexError else Inr (t\<lparr>shape := 1 # 1 # shape t\<rparr>))"

text \<open>\<^verbatim>\<open>t.expand(batch_size, -1, -1)\<close> on a tensor of three dimensions.\<close>

definition expand_batch :: "nat \<Rightarrow> 'a tensor \<Rightarrow> error + 'a tensor" where
  "expand_batch batch_size t =
     (case shape t of
        [d0, d1, d2] \<Rightarrow>
          if d0 = batch_size then Inr t
          else if d0 = 1 then Inr (tabulate [batch_size, d1, d2] (\<lambda>idx. elt t (idx[0 := 0])))
          else Inl RuntimeError
      | _ \<Rightarrow> Inl RuntimeError)"

section \<open>Displacement to normals: \<^verbatim>\<open>DECA.displacement2normal\<close>\<close>

text \<open>
  \<^verbatim>\<open>
  def displacement2normal(self, uv_z, coarse_verts, coarse_normals):
      batch_size = uv_z.shape[0]
      uv_coarse_vertices = self.render.world2uv(coarse_verts, coarse=True).detach()
      uv_coarse_normals = self.render.world2uv(coarse_normals, coarse=True).detach()

      uv_z = uv_z*self.uv_face_eye_mask_coarse
      uv_detail_vertices = uv_coarse_vertices + uv_z*uv_coarse_normals + self.fixed_uv_dis[None,None,:,:]*uv_coarse_normals.detach()

      dense_vertices = uv_detail_vertices.permute(0,2,3,1).reshape([batch_size, -1, 3])
      uv_detail_normals = util.vertex_normals(dense_vertices, self.render.dense_faces.expand(batch_size, -1, -1))
      uv_detail_normals = uv_detail_normals.reshape([batch_size, uv_coarse_vertices.shape[2], uv_coarse_vertices.shape[3], 3]).permute(0,3,1,2)

      uv_detail_normals = uv_detail_normals*self.uv_face_eye_mask_coarse + uv_coarse_normals*(1-self.uv_face_eye_mask_coarse)
      uv_detail_normals = F.interpolate(uv_detail_normals, (self.uv_size, self.uv_size))

      return uv_detail_normals
  \<close>
  \<^verbatim>\<open>detach\<close> changes no value. The model is cut where the claim looks: \<open>detail_vertices\<close>
  is the method up to \<^verbatim>\<open>dense_vertices\<close>, \<open>displacement2normal_coarse\<close> up to the blend at
  coarse resolution, \<open>displacement2normal\<close> the whole.
\<close>

definition batch_size_of :: "'a tensor \<Rightarrow> error + nat" where
  "batch_size_of t = (case shape t of [] \<Rightarrow> Inl IndexError | n # _ \<Rightarrow> Inr n)"

definition detail_vertices :: "deca \<Rightarrow> real tensor \<Rightarrow> real tensor \<Rightarrow> real tensor \<Rightarrow> error + real tensor" where
  "detail_vertices self uv_z coarse_verts coarse_normals =
     ebind (batch_size_of uv_z) (\<lambda>batch_size.
     let uv_coarse_vertices = render_world2uv_coarse self coarse_verts;
         uv_coarse_normals = render_world2uv_coarse self coarse_normals in
     ebind (tmul uv_z (uv_face_eye_mask_coarse self)) (\<lambda>uv_z.
     ebind (tmul uv_z uv_coarse_normals) (\<lambda>displaced.
     ebind (tadd uv_coarse_vertices displaced) (\<lambda>partial.
     ebind (unsqueeze2 (fixed_uv_dis self)) (\<lambda>bias.
     ebind (tmul bias uv_coarse_normals) (\<lambda>biased.
     ebind (tadd partial biased) (\<lambda>uv_detail_vertices.
     ebind (permute [0, 2, 3, 1] uv_detail_vertices) (\<lambda>moved.
     reshape_infer [batch_size] [3] moved))))))))"

definition displacement2normal_coarse ::
  "deca \<Rightarrow> real tensor \<Rightarrow> real tensor \<Rightarrow> real tensor \<Rightarrow> error + real tensor"
where
  "displacement2normal_coarse self uv_z coarse_verts coarse_normals =
     ebind (batch_size_of uv_z) (\<lambda>batch_size.
     let uv_coarse_vertices = render_world2uv_coarse self coarse_verts;
         uv_coarse_normals = render_world2uv_coarse self coarse_normals in
     ebind (detail_vertices self uv_z coarse_verts coarse_normals) (\<lambda>dense_vertices.
     ebind (expand_batch batch_size (render_dense_faces self)) (\<lambda>expanded.
     let uv_detail_normals = util_vertex_normals self dense_vertices expanded in
     if length (shape uv_coarse_vertices) < 4 then Inl IndexError
     else
     ebind (reshape [batch_size, shape uv_coarse_vertices ! 2, shape uv_coarse_vertices ! 3, 3]
              uv_detail_normals) (\<lambda>raster.
     ebind (permute [0, 3, 1, 2] raster) (\<lambda>uv_detail_normals.
     ebind (tmul uv_detail_normals (uv_face_eye_mask_coarse self)) (\<lambda>inside.
     ebind (tmul uv_coarse_normals (tmap (\<lambda>m. 1 - m) (uv_face_eye_mask_coarse self))) (\<lambda>outside.
     tadd inside outside)))))))"

definition displacement2normal ::
  "deca \<Rightarrow> real tensor \<Rightarrow> real tensor \<Rightarrow> real tensor \<Rightarrow> error + real tensor"
where
  "displacement2normal self uv_z coarse_verts coarse_normals =
     ebind (displacement2normal_coarse self uv_z coarse_verts coarse_normals) (\<lambda>uv_detail_normals.
     Inr (F_interpolate self uv_detail_normals [uv_size self, uv_size self]))"

subsection \<open>A coarse atlas of two texels\<close>

text \<open>
  One batch entry and a \<open>1 \<times> 2\<close> coarse atlas whose first texel lies outside the face/eye
  mask and whose second lies inside; the bias is \<open>1/2\<close> at both. The unwrapping is the
  identity, and the normal of a vertex is the vertex itself (as on a unit sphere).
\<close>

definition two_texel_mask :: "real tensor" where
  "two_texel_mask = \<lparr>shape = [1, 1, 1, 2], data = [0, 1]\<rparr>"

definition two_texel_deca :: deca where
  "two_texel_deca = \<lparr>
     cfg_use_tex = True, image_size = 1, uv_size = 2,
     self_uv_face_eye_mask = two_texel_mask,
     uv_face_eye_mask_coarse = two_texel_mask,
     fixed_uv_dis = \<lparr>shape = [1, 2], data = [1 / 2, 1 / 2]\<rparr>,
     render_faces = \<lparr>shape = [1, 1, 3], data = [0, 1, 0]\<rparr>,
     render_dense_faces = \<lparr>shape = [1, 1, 3], data = [0, 1, 0]\<rparr>,
     render_world2uv_coarse = (\<lambda>t. t),
     util_vertex_normals = (\<lambda>vs fs. vs),
     F_interpolate = (\<lambda>t size. t),
     flame_seletec_3d68 = (\<lambda>t. t),
     util_batch_orth_proj = batch_orth_proj TranslateThenScale,
     call = (\<lambda>name args. \<lparr>shape = [], data = [0]\<rparr>)\<rparr>"

definition two_texel_verts :: "real tensor" where
  "two_texel_verts = \<lparr>shape = [1, 3, 1, 2], data = [1, 2, 3, 4, 5, 6]\<rparr>"


definition two_texel_zero :: "real tensor" where
  "two_texel_zero = \<lparr>shape = [1, 1, 1, 2], data = [0, 0]\<rparr>"


section \<open>Visualization composer: \<^verbatim>\<open>DECA.visualize\<close>\<close>

text \<open>
  \<^verbatim>\<open>
  def visualize(self, visdict, size=224, dim=2):
      assert dim == 1 or dim==2
      grids = {}
      for key in visdict:
          _,_,h,w = visdict[key].shape
          if dim == 2:
              new_h = size; new_w = int(w*size/h)
          elif dim == 1:
              new_h = int(h*size/w); new_w = size
          grids[key] = torchvision.utils.make_grid(F.interpolate(visdict[key], [new_h, new_w]).detach().cpu())
      grid = torch.cat(list(grids.values()), dim)
      grid_image = (grid.numpy().transpose(1,2,0).copy()*255)[:,:,[2,1,0]]
      grid_image = np.minimum(np.maximum(grid_image, 0), 255).astype(np.uint8)
      return grid_image
  \<close>
  The failed \<^verbatim>\<open>assert\<close> raises \<open>AssertionError\<close>; this is the error the spec calls
  \<open>InvalidAxis\<close>. \<open>visdict\<close> is a dictionary in insertion order, and \<open>grids\<close> gets the same
  keys in the same order.

  \<^verbatim>\<open>int(a/b)\<close> on integers: the quotient truncated toward zero, \<open>ZeroDivisionError\<close> for
  \<open>b = 0\<close> (the rounding of the floating-point quotient is not modelled). The
  parameters \<^verbatim>\<open>size\<close> and \<^verbatim>\<open>dim\<close> are \<open>sz\<close> and \<open>axis\<close> in the model.
\<close>

definition int_of_quotient :: "int \<Rightarrow> int \<Rightarrow> error + int" where
  "int_of_quotient a b =
     (if b = 0 then Inl ZeroDivisionError else Inr (sgn a * sgn b * (\<bar>a\<bar> div \<bar>b\<bar>)))"

definition new_size :: "int \<Rightarrow> int \<Rightarrow> nat \<Rightarrow> nat \<Rightarrow> error + (int \<times> int)" where
  "new_size sz axis h w =
     (if axis = 2 then ebind (int_of_quotient (int w * sz) (int h)) (\<lambda>new_w. Inr (sz, new_w))
      else if axis = 1 then ebind (int_of_quotient (int h * sz) (int w)) (\<lambda>new_h. Inr (new_h, sz))
      else Inl (UnboundLocalError ''new_h''))"

text \<open>
  The body of the loop. \<^verbatim>\<open>F.interpolate\<close> raises for a target size that is not positive;
  \<^verbatim>\<open>make_grid\<close> is a collaborator.
\<close>

definition grid_of :: "deca \<Rightarrow> int \<Rightarrow> int \<Rightarrow> real tensor \<Rightarrow> error + real tensor" where
  "grid_of self sz axis t =
     (case shape t of
        [_, _, h, w] \<Rightarrow>
          ebind (new_size sz axis h w) (\<lambda>(new_h, new_w).
          if new_h \<le> 0 \<or> new_w \<le> 0 then Inl RuntimeError
          else Inr (call self ''torchvision.utils.make_grid''
                      [F_interpolate self t [nat new_h, nat new_w]]))
      | _ \<Rightarrow> Inl ValueError)"

fun grids_loop ::
  "deca \<Rightarrow> int \<Rightarrow> int \<Rightarrow> (string \<times> real tensor) list \<Rightarrow> error + (string \<times> real tensor) list"
where
  "grids_loop self sz axis [] = Inr []"
| "grids_loop self sz axis ((key, t) # rest) =
     ebind (grid_of self sz axis t) (\<lambda>g.
     ebind (grids_loop self sz axis rest) (\<lambda>grids.
     Inr ((key, g) # grids)))"

text \<open>
  numpy's \<^verbatim>\<open>transpose(1,2,0)\<close> raises \<open>ValueError\<close> unless the array has three axes;
  \<^verbatim>\<open>a[:,:,[2,1,0]]\<close> reads the channels of the third axis in reverse order.
\<close>

definition transpose_120 :: "'a tensor \<Rightarrow> error + 'a tensor" where
  "transpose_120 t = (case permute [1, 2, 0] t of Inl e \<Rightarrow> Inl ValueError | Inr r \<Rightarrow> Inr r)"

definition channels_210 :: "'a tensor \<Rightarrow> error + 'a tensor" where
  "channels_210 t =
     (case shape t of
        [h, w, c] \<Rightarrow>
          if c < 3 then Inl IndexError
          else Inr (tabulate [h, w, 3] (\<lambda>idx. elt t (idx[2 := 2 - idx ! 2])))
      | _ \<Rightarrow> Inl IndexError)"

text \<open>
  \<^verbatim>\<open>astype(np.uint8)\<close>: the fraction is cut off, and a value out of range would wrap
  around modulo 256.
\<close>

definition to_uint8 :: "real \<Rightarrow> nat" where
  "to_uint8 x = nat ((if x < 0 then \<lceil>x\<rceil> else \<lfloor>x\<rfloor>) mod 256)"

definition clamp_255 :: "real \<Rightarrow> real" where
  "clamp_255 x = min (max x 0) 255"

definition visualize ::
  "deca \<Rightarrow> (string \<times> real tensor) list \<Rightarrow> int \<Rightarrow> int \<Rightarrow> error + nat tensor"
where
  "visualize self visdict sz axis =
     (if \<not> (axis = 1 \<or> axis = 2) then Inl AssertionError
      else
        ebind (grids_loop self sz axis visdict) (\<lambda>grids.
        ebind (tcat (nat axis) (map snd grids)) (\<lambda>grid.
        ebind (transpose_120 grid) (\<lambda>hwc.
        ebind (channels_210 (tmap (\<lambda>x. x * 255) hwc)) (\<lambda>grid_image.
        Inr (tmap to_uint8 (tmap clamp_255 grid_image)))))))"

subsection \<open>Well-formed input of the composer\<close>





subsection \<open>A one-pixel image\<close>

text \<open>
  A single RGB image of one pixel with the channel values \<open>2\<close>, \<open>1/2\<close> and \<open>-1\<close>. The
  resampling to its own size is the identity, and \<^verbatim>\<open>make_grid\<close> of a batch of one image
  returns that image.
\<close>

definition single_image_deca :: deca where
  "single_image_deca = two_texel_deca\<lparr>call := (\<lambda>name args. (hd args)\<lparr>shape := tl (shape (hd args))\<rparr>)\<rparr>"

definition one_pixel :: "real tensor" where
  "one_pixel = \<lparr>shape = [1, 3, 1, 1], data = [2, 1 / 2, - 1]\<rparr>"


section \<open>The decode pipeline: \<^verbatim>\<open>DECA.decode\<close>\<close>

text \<open>
  \<^verbatim>\<open>decode\<close> (lines 255 to 448) is modelled statement by statement. The collaborators
  return through \<open>call\<close> (one name per returned value); console output and the image
  files written by \<^verbatim>\<open>save_image\<close> are not modelled.

  A Python function's local variable exists once an assignment to it has run. The
  variables that \<^verbatim>\<open>decode\<close> assigns in every run are plain fields of \<open>locals\<close>; those it
  assigns only under \<^verbatim>\<open>if rendering:\<close> and reads again later are optional fields, and
  reading one that is still unassigned raises \<open>UnboundLocalError\<close>.
\<close>

record locals =
  l_images :: "real tensor"
  l_hr_images :: "real tensor"
  l_batch_size :: nat
  l_verts :: "real tensor"
  l_landmarks2d :: "real tensor"
  l_landmarks3d :: "real tensor"
  l_albedo :: "real tensor"
  l_trans_verts :: "real tensor"
  l_opdict :: "string \<rightharpoonup> real tensor"
  l_uv_detail_normals :: "real tensor option"
  l_uv_texture :: "real tensor option"
  l_uv_face_eye_mask :: "real tensor option"
  l_uv_texture_gt :: "real tensor option"

definition local_var :: "string \<Rightarrow> 'a option \<Rightarrow> error + 'a" where
  "local_var name v = (case v of None \<Rightarrow> Inl (UnboundLocalError name) | Some x \<Rightarrow> Inr x)"

definition lookup :: "(string \<rightharpoonup> 'a) \<Rightarrow> string \<Rightarrow> error + 'a" where
  "lookup d key = (case d key of None \<Rightarrow> Inl (KeyError key) | Some x \<Rightarrow> Inr x)"

subsection \<open>Small tensor operations of the pipeline\<close>

definition zeros :: "nat list \<Rightarrow> real tensor" where
  "zeros sh = tabulate sh (\<lambda>idx. 0)"

definition ones_like :: "real tensor \<Rightarrow> real tensor" where
  "ones_like t = tmap (\<lambda>x. 1) t"

definition scalar :: "real \<Rightarrow> real tensor" where
  "scalar x = \<lparr>shape = [], data = [x]\<rparr>"

text \<open>\<^verbatim>\<open>t[0]\<close>, \<^verbatim>\<open>t.unsqueeze(0)\<close>, \<^verbatim>\<open>t.squeeze()\<close>, \<^verbatim>\<open>t[:, 3:]\<close>, \<^verbatim>\<open>t[:,:,:,:2]\<close>, \<^verbatim>\<open>t[:,:,0:1]\<close>.\<close>

definition index0 :: "'a tensor \<Rightarrow> error + 'a tensor" where
  "index0 t =
     (case shape t of
        [] \<Rightarrow> Inl IndexError
      | n # sh \<Rightarrow> if n = 0 then Inl IndexError else Inr (tabulate sh (\<lambda>idx. elt t (0 # idx))))"

definition unsqueeze0 :: "'a tensor \<Rightarrow> 'a tensor" where
  "unsqueeze0 t = t\<lparr>shape := 1 # shape t\<rparr>"

definition squeeze :: "'a tensor \<Rightarrow> 'a tensor" where
  "squeeze t = t\<lparr>shape := filter (\<lambda>n. n \<noteq> 1) (shape t)\<rparr>"

definition from3 :: "'a tensor \<Rightarrow> error + 'a tensor" where
  "from3 t = (if length (shape t) < 2 then Inl IndexError else slice_dim 1 (Some 3) None t)"

definition sample_coords :: "'a tensor \<Rightarrow> error + 'a tensor" where
  "sample_coords t = (if length (shape t) < 4 then Inl IndexError else slice_dim 3 None (Some 2) t)"

definition first_coord :: "'a tensor \<Rightarrow> error + 'a tensor" where
  "first_coord t = (if length (shape t) < 3 then Inl IndexError else slice_dim 2 (Some 0) (Some 1) t)"

text \<open>\<^verbatim>\<open>np.max\<close> raises \<open>ValueError\<close> on an empty array.\<close>

definition np_max :: "real tensor \<Rightarrow> error + real" where
  "np_max t = (case data t of [] \<Rightarrow> Inl ValueError | x # xs \<Rightarrow> Inr (fold max xs x))"

text \<open>
  \<^verbatim>\<open>_, _, h, w = original_image.shape\<close> raises \<open>ValueError\<close> unless there are four
  dimensions.
\<close>

definition height_width :: "'a tensor \<Rightarrow> error + (nat \<times> nat)" where
  "height_width t = (case shape t of [_, _, h, w] \<Rightarrow> Inr (h, w) | _ \<Rightarrow> Inl ValueError)"

definition optional_arg :: "'a option \<Rightarrow> 'a list" where
  "optional_arg v = (case v of None \<Rightarrow> [] | Some x \<Rightarrow> [x])"

text \<open>Assignment to a key of an insertion-ordered dictionary.\<close>

fun dict_set :: "'k \<Rightarrow> 'v \<Rightarrow> ('k \<times> 'v) list \<Rightarrow> ('k \<times> 'v) list" where
  "dict_set k v [] = [(k, v)]"
| "dict_set k v ((k', v') # rest) = (if k = k' then (k, v) # rest else (k', v') # dict_set k v rest)"

subsection \<open>Lines 257 to 280: decoding and projection\<close>

text \<open>
  \<^verbatim>\<open>
  images = codedict['images']
  hr_images = codedict['hr_images']
  batch_size = images.shape[0]
  verts, landmarks2d, landmarks3d, _ = self.flame(shape_params=codedict['shape'], expression_params=codedict['exp'], pose_params=codedict['pose'])
  if self.cfg.model.use_tex:
      albedo = self.flametex(codedict['tex'])
  else:
      albedo = torch.zeros([batch_size, 3, self.uv_size, self.uv_size], device=images.device)
  landmarks3d_world = landmarks3d.clone()
  landmarks2d = util.batch_orth_proj(landmarks2d, codedict['cam'])[:,:,:2]; landmarks2d[:,:,1:] = -landmarks2d[:,:,1:]
  landmarks3d = util.batch_orth_proj(landmarks3d, codedict['cam']); landmarks3d[:,:,1:] = -landmarks3d[:,:,1:]
  trans_verts = util.batch_orth_proj(verts, codedict['cam']); trans_verts[:,:,1:] = -trans_verts[:,:,1:]
  opdict = {'verts': verts, 'trans_verts': trans_verts, 'landmarks2d': landmarks2d,
            'landmarks3d': landmarks3d, 'landmarks3d_world': landmarks3d_world}
  \<close>
\<close>

definition decode_front :: "deca \<Rightarrow> (string \<rightharpoonup> real tensor) \<Rightarrow> error + locals" where
  "decode_front self codedict =
     ebind (lookup codedict ''images'') (\<lambda>images.
     ebind (lookup codedict ''hr_images'') (\<lambda>hr_images.
     ebind (batch_size_of images) (\<lambda>batch_size.
     ebind (lookup codedict ''shape'') (\<lambda>shape_params.
     ebind (lookup codedict ''exp'') (\<lambda>expression_params.
     ebind (lookup codedict ''pose'') (\<lambda>pose_params.
     let verts = call self ''flame.verts'' [shape_params, expression_params, pose_params];
         landmarks2d = call self ''flame.landmarks2d'' [shape_params, expression_params, pose_params];
         landmarks3d = call self ''flame.landmarks3d'' [shape_params, expression_params, pose_params]
     in
     ebind (if cfg_use_tex self
            then ebind (lookup codedict ''tex'') (\<lambda>tex. Inr (call self ''flametex'' [tex]))
            else Inr (zeros [batch_size, 3, uv_size self, uv_size self])) (\<lambda>albedo.
     let landmarks3d_world = landmarks3d in
     ebind (lookup codedict ''cam'') (\<lambda>cam.
     ebind (project_landmarks2d (util_batch_orth_proj self) landmarks2d cam) (\<lambda>landmarks2d.
     ebind (lookup codedict ''cam'') (\<lambda>cam.
     ebind (project_points (util_batch_orth_proj self) landmarks3d cam) (\<lambda>landmarks3d.
     ebind (lookup codedict ''cam'') (\<lambda>cam.
     ebind (project_points (util_batch_orth_proj self) verts cam) (\<lambda>trans_verts.
     Inr \<lparr>l_images = images, l_hr_images = hr_images, l_batch_size = batch_size,
          l_verts = verts, l_landmarks2d = landmarks2d, l_landmarks3d = landmarks3d,
          l_albedo = albedo, l_trans_verts = trans_verts,
          l_opdict = [''verts'' \<mapsto> verts, ''trans_verts'' \<mapsto> trans_verts,
                      ''landmarks2d'' \<mapsto> landmarks2d, ''landmarks3d'' \<mapsto> landmarks3d,
                      ''landmarks3d_world'' \<mapsto> landmarks3d_world],
          l_uv_detail_normals = None, l_uv_texture = None,
          l_uv_face_eye_mask = None, l_uv_texture_gt = None\<rparr>)))))))))))))"

subsection \<open>Lines 283 to 320: the block under \<^verbatim>\<open>if rendering:\<close>\<close>

text \<open>
  \<^verbatim>\<open>
  uv_z = self.D_detail(torch.cat([codedict['pose'][:,3:], codedict['exp'], codedict['detail']], dim=1))
  if iddict is not None:
      uv_z = self.D_detail(torch.cat([iddict['pose'][:,3:], iddict['exp'], codedict['detail']], dim=1))
  \<close>
\<close>

definition detail_displacement ::
  "deca \<Rightarrow> (string \<rightharpoonup> real tensor) \<Rightarrow> (string \<rightharpoonup> real tensor) \<Rightarrow> error + real tensor"
where
  "detail_displacement self posedict codedict =
     ebind (lookup posedict ''pose'') (\<lambda>pose.
     ebind (from3 pose) (\<lambda>jaw_pose.
     ebind (lookup posedict ''exp'') (\<lambda>exp.
     ebind (lookup codedict ''detail'') (\<lambda>detail.
     ebind (tcat 1 [jaw_pose, exp, detail]) (\<lambda>latent.
     Inr (call self ''D_detail'' [latent]))))))"

text \<open>
  \<^verbatim>\<open>
  uv_gt = F.grid_sample(hr_images, uv_pverts.permute(0,2,3,1)[:,:,:,:2], mode='bilinear', align_corners=False)
  uv_gt_mask = F.grid_sample(torch.ones_like(hr_images), uv_pverts.permute(0,2,3,1)[:,:,:,:2], mode='bilinear', align_corners=False)
  \<close>
  The pair \<open>(uv_gt, uv_gt_mask)\<close>.
\<close>

definition sample_image :: "deca \<Rightarrow> real tensor \<Rightarrow> real tensor \<Rightarrow> error + (real tensor \<times> real tensor)" where
  "sample_image self hr_images uv_pverts =
     ebind (permute [0, 2, 3, 1] uv_pverts) (\<lambda>moved.
     ebind (sample_coords moved) (\<lambda>coords.
     let uv_gt = call self ''F.grid_sample'' [hr_images, coords] in
     ebind (permute [0, 2, 3, 1] uv_pverts) (\<lambda>moved.
     ebind (sample_coords moved) (\<lambda>coords.
     let uv_gt_mask = call self ''F.grid_sample'' [ones_like hr_images, coords] in
     Inr (uv_gt, uv_gt_mask)))))"

text \<open>
  \<^verbatim>\<open>
  normals = util.vertex_normals(verts, self.render.faces.expand(batch_size, -1, -1))
  uv_detail_normals = self.displacement2normal(uv_z, verts, normals)
  uv_shading = self.render.add_SHlight(uv_detail_normals, codedict['light'])
  uv_texture = albedo*uv_shading

  opdict['uv_texture'] = uv_texture
  opdict['normals'] = normals
  opdict['uv_detail_normals'] = uv_detail_normals
  opdict['displacement_map'] = uv_z+self.fixed_uv_dis[None,None,:,:]

  if 'attributes' in codedict:
      uv_pverts = self.render.world2uv(trans_verts, attributes=codedict['attributes'])
  else:
      uv_pverts = self.render.world2uv(trans_verts)
      face_vertices = util.face_vertices(trans_verts, self.render.faces.expand(trans_verts.shape[0], -1, -1))
      opdict['attributes'] = face_vertices
  \<close>
  then the sampling and the compositing shown above, and
  \<^verbatim>\<open>
  opdict['uv_texture_gt'] = uv_texture_gt
  save_image(uv_texture_gt[0].cpu(), "./coarse_uv_texture.png")
  \<close>
\<close>

definition decode_rendering ::
  "deca \<Rightarrow> (string \<rightharpoonup> real tensor) \<Rightarrow> (string \<rightharpoonup> real tensor) option \<Rightarrow> locals \<Rightarrow> error + locals"
where
  "decode_rendering self codedict iddict L =
     ebind (detail_displacement self codedict codedict) (\<lambda>uv_z.
     ebind (case iddict of
              None \<Rightarrow> Inr uv_z
            | Some idd \<Rightarrow> detail_displacement self idd codedict) (\<lambda>uv_z.
     ebind (expand_batch (l_batch_size L) (render_faces self)) (\<lambda>expanded.
     let normals = util_vertex_normals self (l_verts L) expanded in
     ebind (displacement2normal self uv_z (l_verts L) normals) (\<lambda>uv_detail_normals.
     ebind (lookup codedict ''light'') (\<lambda>light.
     let uv_shading = call self ''render.add_SHlight'' [uv_detail_normals, light] in
     ebind (tmul (l_albedo L) uv_shading) (\<lambda>uv_texture.
     let opdict = (l_opdict L)(''uv_texture'' \<mapsto> uv_texture, ''normals'' \<mapsto> normals,
                               ''uv_detail_normals'' \<mapsto> uv_detail_normals) in
     ebind (unsqueeze2 (fixed_uv_dis self)) (\<lambda>bias.
     ebind (tadd uv_z bias) (\<lambda>displacement_map.
     let opdict = opdict(''displacement_map'' \<mapsto> displacement_map) in
     ebind (case codedict ''attributes'' of
              Some attributes \<Rightarrow>
                Inr (call self ''render.world2uv'' [l_trans_verts L, attributes], opdict)
            | None \<Rightarrow>
                let uv_pverts = call self ''render.world2uv'' [l_trans_verts L] in
                ebind (batch_size_of (l_trans_verts L)) (\<lambda>n.
                ebind (expand_batch n (render_faces self)) (\<lambda>expanded.
                let face_vertices = call self ''util.face_vertices'' [l_trans_verts L, expanded] in
                Inr (uv_pverts, opdict(''attributes'' \<mapsto> face_vertices))))) (\<lambda>(uv_pverts, opdict).
     ebind (sample_image self (l_hr_images L) uv_pverts) (\<lambda>(uv_gt, uv_gt_mask).
     ebind (texture_compositing (cfg_use_tex self) (self_uv_face_eye_mask self) uv_gt uv_gt_mask uv_texture)
       (\<lambda>(uv_face_eye_mask, uv_texture_gt).
     let opdict = opdict(''uv_texture_gt'' \<mapsto> uv_texture_gt) in
     ebind (index0 uv_texture_gt) (\<lambda>saved.
     Inr (L\<lparr>l_opdict := opdict,
            l_uv_detail_normals := Some uv_detail_normals,
            l_uv_texture := Some uv_texture,
            l_uv_face_eye_mask := Some uv_face_eye_mask,
            l_uv_texture_gt := Some uv_texture_gt\<rparr>)))))))))))))"

subsection \<open>Lines 325 to 358: the block under \<^verbatim>\<open>if return_vis:\<close>, coarse mesh\<close>

text \<open>
  \<^verbatim>\<open>
  if render_orig and original_image is not None and tform is not None:
      points_scale = [self.image_size, self.image_size]
      _, _, h, w = original_image.shape
      trans_verts = transform_points(trans_verts, tform, points_scale, [h, w])
      landmarks2d = transform_points(landmarks2d, tform, points_scale, [h, w])
      landmarks3d = transform_points(landmarks3d, tform, points_scale, [h, w])
      background = original_image
      images = original_image
  else:
      print("no tform available")
      h, w = self.image_size, self.image_size
      background = None
  \<close>
\<close>

record vis_locals =
  v_h :: nat
  v_w :: nat
  v_background :: "real tensor option"
  v_images :: "real tensor"
  v_trans_verts :: "real tensor"
  v_landmarks2d :: "real tensor"
  v_landmarks3d :: "real tensor"
  v_opdict :: "string \<rightharpoonup> real tensor"
  v_shape_images :: "real tensor"
  v_shape_detail_images :: "real tensor"
  v_ops_images :: "real tensor"
  v_ops_mask :: "real tensor"
  v_grid :: "real tensor"
  v_alpha_images :: "real tensor"
  v_uv_detail_normals :: "real tensor"
  v_uv_face_eye_mask :: "real tensor"

definition transform_points ::
  "deca \<Rightarrow> real tensor \<Rightarrow> real tensor \<Rightarrow> nat \<Rightarrow> nat \<Rightarrow> real tensor"
where
  "transform_points self points tform h w =
     call self ''transform_points''
       [points, tform, scalar (real (image_size self)), scalar (real (image_size self)),
        scalar (real h), scalar (real w)]"

definition place_in_original ::
  "deca \<Rightarrow> bool \<Rightarrow> real tensor option \<Rightarrow> real tensor option \<Rightarrow> locals \<Rightarrow> error + vis_locals"
where
  "place_in_original self render_orig original_image tform L =
     (let unplaced =
        \<lparr>v_h = image_size self, v_w = image_size self, v_background = None,
         v_images = l_images L, v_trans_verts = l_trans_verts L,
         v_landmarks2d = l_landmarks2d L, v_landmarks3d = l_landmarks3d L,
         v_opdict = l_opdict L,
         v_shape_images = zeros [], v_shape_detail_images = zeros [],
         v_ops_images = zeros [], v_ops_mask = zeros [], v_grid = zeros [],
         v_alpha_images = zeros [], v_uv_detail_normals = zeros [],
         v_uv_face_eye_mask = zeros []\<rparr>
      in
      case (original_image, tform) of
        (Some orig, Some tf) \<Rightarrow>
          if render_orig then
            ebind (height_width orig) (\<lambda>(h, w).
            Inr (unplaced\<lparr>v_h := h, v_w := w, v_background := Some orig, v_images := orig,
                   v_trans_verts := transform_points self (l_trans_verts L) tf h w,
                   v_landmarks2d := transform_points self (l_landmarks2d L) tf h w,
                   v_landmarks3d := transform_points self (l_landmarks3d L) tf h w\<rparr>))
          else Inr unplaced
      | _ \<Rightarrow> Inr unplaced)"

text \<open>
  The fields of \<open>vis_locals\<close> from \<open>v_shape_images\<close> on stand for variables that the
  following lines assign before anything reads them; \<open>place_in_original\<close> fills them
  with an empty placeholder.
  \<^verbatim>\<open>
  ops = self.render(verts, trans_verts, uv_texture_gt, None, h=h, w=w, bg_images=background, face_mask=uv_face_eye_mask)
  opdict['grid'] = ops['grid']
  opdict['rendered_images'] = ops['images']
  opdict['alpha_images'] = ops['alpha_images']
  opdict['normal_images'] = ops['normal_images']
  if vis_lmk:
      landmarks3d_vis = self.visofp(ops['transformed_normals'])
      landmarks3d = torch.cat([landmarks3d, landmarks3d_vis], dim=2)
      opdict['landmarks3d'] = landmarks3d
  shape_images, _, grid, alpha_images = self.render.render_shape(verts, trans_verts, h=h, w=w, images=background, return_grid=True)
  detail_normal_images = F.grid_sample(uv_detail_normals, grid, align_corners=False)*alpha_images
  shape_detail_images = self.render.render_shape(verts, trans_verts, detail_normal_images=detail_normal_images, h=h, w=w, images=background)
  \<close>
  The arguments of a call are evaluated from left to right, so the first variable read
  by the call of the renderer is \<^verbatim>\<open>uv_texture_gt\<close>.
\<close>

definition decode_vis ::
  "deca \<Rightarrow> bool \<Rightarrow> bool \<Rightarrow> real tensor option \<Rightarrow> real tensor option \<Rightarrow> locals \<Rightarrow> error + vis_locals"
where
  "decode_vis self vis_lmk render_orig original_image tform L =
     ebind (place_in_original self render_orig original_image tform L) (\<lambda>V.
     ebind (local_var ''uv_texture_gt'' (l_uv_texture_gt L)) (\<lambda>uv_texture_gt.
     ebind (local_var ''uv_face_eye_mask'' (l_uv_face_eye_mask L)) (\<lambda>uv_face_eye_mask.
     let render_args =
           [l_verts L, v_trans_verts V, uv_texture_gt, scalar (real (v_h V)), scalar (real (v_w V))]
           @ optional_arg (v_background V) @ [uv_face_eye_mask];
         opdict = (v_opdict V)(''grid'' \<mapsto> call self ''render.grid'' render_args,
                    ''rendered_images'' \<mapsto> call self ''render.images'' render_args,
                    ''alpha_images'' \<mapsto> call self ''render.alpha_images'' render_args,
                    ''normal_images'' \<mapsto> call self ''render.normal_images'' render_args)
     in
     ebind (if vis_lmk
            then ebind (landmarks_with_visibility (flame_seletec_3d68 self) (v_landmarks3d V)
                          (call self ''render.transformed_normals'' render_args)) (\<lambda>landmarks3d.
                 Inr (landmarks3d, opdict(''landmarks3d'' \<mapsto> landmarks3d)))
            else Inr (v_landmarks3d V, opdict)) (\<lambda>(landmarks3d, opdict).
     let shape_args =
           [l_verts L, v_trans_verts V, scalar (real (v_h V)), scalar (real (v_w V))]
           @ optional_arg (v_background V);
         shape_images = call self ''render.render_shape.shape_images'' shape_args;
         grid = call self ''render.render_shape.grid'' shape_args;
         alpha_images = call self ''render.render_shape.alpha_images'' shape_args
     in
     ebind (local_var ''uv_detail_normals'' (l_uv_detail_normals L)) (\<lambda>uv_detail_normals.
     ebind (tmul (call self ''F.grid_sample'' [uv_detail_normals, grid]) alpha_images) (\<lambda>detail_normal_images.
     let shape_detail_images =
           call self ''render.render_shape.shape_images''
             ([l_verts L, v_trans_verts V, detail_normal_images, scalar (real (v_h V)), scalar (real (v_w V))]
              @ optional_arg (v_background V))
     in
     Inr (V\<lparr>v_landmarks3d := landmarks3d, v_opdict := opdict,
            v_shape_images := shape_images, v_shape_detail_images := shape_detail_images,
            v_ops_images := call self ''render.images'' render_args,
            v_ops_mask := call self ''render.mask'' render_args,
            v_grid := grid, v_alpha_images := alpha_images,
            v_uv_detail_normals := uv_detail_normals,
            v_uv_face_eye_mask := uv_face_eye_mask\<rparr>)))))))"

subsection \<open>Lines 360 to 445: the dense mesh\<close>

text \<open>
  \<^verbatim>\<open>
  vertices = opdict['verts'][0].cpu().numpy()
  faces = self.render.faces[0].cpu().numpy()
  texture = util.tensor2image(opdict['uv_texture_gt'][0])
  texture = texture[:,:,[2,1,0]]
  normals = opdict['normals'][0].cpu().numpy()
  displacement_map = opdict['displacement_map'][0].cpu().detach().numpy().squeeze()
  dense_vertices, dense_colors, dense_faces, dense_uvcoords, dense_uvfaces = util.upsample_mesh(vertices, normals, faces, displacement_map, texture, self.dense_template)
  \<close>
  The five arguments of \<^verbatim>\<open>upsample_mesh\<close>.
\<close>

definition upsample_args :: "deca \<Rightarrow> (string \<rightharpoonup> real tensor) \<Rightarrow> error + real tensor list" where
  "upsample_args self opdict =
     ebind (ebind (lookup opdict ''verts'') index0) (\<lambda>vertices.
     ebind (index0 (render_faces self)) (\<lambda>faces.
     ebind (ebind (lookup opdict ''uv_texture_gt'') index0) (\<lambda>first_texture.
     ebind (channels_210 (call self ''util.tensor2image'' [first_texture])) (\<lambda>texture.
     ebind (ebind (lookup opdict ''normals'') index0) (\<lambda>normals.
     ebind (ebind (lookup opdict ''displacement_map'') index0) (\<lambda>first_map.
     let displacement_map = squeeze first_map in
     Inr [vertices, normals, faces, displacement_map, texture]))))))"

text \<open>
  \<^verbatim>\<open>
  dense_uvcoords = torch.from_numpy(dense_uvcoords).cuda().unsqueeze(0) / np.max(dense_uvcoords)
  dense_uvcoords = torch.cat([dense_uvcoords, dense_uvcoords[:,:,0:1]*0.+1.], -1)
  dense_uvcoords = dense_uvcoords*2 - 1
  \<close>
\<close>

definition normalize_uvcoords :: "real tensor \<Rightarrow> error + real tensor" where
  "normalize_uvcoords dense_uvcoords =
     ebind (np_max dense_uvcoords) (\<lambda>largest.
     let scaled = tmap (\<lambda>x. x / largest) (unsqueeze0 dense_uvcoords) in
     ebind (first_coord scaled) (\<lambda>first.
     ebind (tcat (length (shape scaled) - 1) [scaled, tmap (\<lambda>x. x * 0 + 1) first]) (\<lambda>extended.
     Inr (tmap (\<lambda>x. x * 2 - 1) extended))))"

text \<open>
  \<^verbatim>\<open>
  dense_uvfaces = torch.from_numpy(dense_uvfaces).cuda().unsqueeze(0)
  dense_vertices = torch.from_numpy(dense_vertices.astype(np.float32)).unsqueeze(0).cuda()
  dense_trans_verts = util.batch_orth_proj(dense_vertices, codedict['cam'])
  dense_trans_verts[:,:,1:] = -dense_trans_verts[:,:,1:]
  dense_faces = torch.from_numpy(dense_faces).cuda().unsqueeze(0)
  detail_normal_images = F.grid_sample(uv_detail_normals, grid, align_corners=False)*alpha_images
  detail_face_uvcoords = util.face_vertices(dense_uvcoords, dense_uvfaces)
  visdict = {
      'hr_inputs': hr_images,
      'landmarks2d': util.tensor_vis_landmarks(images, landmarks2d),
      'shape_images': shape_images,
      'shape_detail_images': shape_detail_images,
      'mask': ops['mask'].repeat(1, 3, 1, 1)
  }
  visdict['rendered_images'] = ops['images']
  visdict['mask'] = ops['mask']
  if 'dense_attributes' in codedict:
      uv_pverts = self.render.world2uv_dense(dense_trans_verts, dense_faces, dense_uvcoords, dense_uvfaces, attributes=codedict['dense_attributes'], debug=True)
  else:
      uv_pverts = self.render.world2uv_dense(dense_trans_verts, dense_faces, dense_uvcoords, dense_uvfaces, debug=True)
      dense_face_vertices = util.face_vertices(dense_trans_verts, dense_faces.expand(dense_vertices.shape[0], -1, -1))
      opdict['dense_attributes'] = dense_face_vertices
  uv_gt = F.grid_sample(hr_images, uv_pverts.permute(0,2,3,1)[:,:,:,:2], mode='bilinear', align_corners=False)
  uv_gt_mask = F.grid_sample(torch.ones_like(hr_images), uv_pverts.permute(0,2,3,1)[:,:,:,:2], mode='bilinear', align_corners=False)
  if self.cfg.model.use_tex:
      uv_face_eye_mask = self.uv_face_eye_mask * uv_gt_mask
      uv_texture_gt = uv_gt[:,:3,:,:]*uv_face_eye_mask + (uv_texture[:,:3,:,:]*(1-uv_face_eye_mask))
  else:
      uv_face_eye_mask = self.uv_face_eye_mask * uv_gt_mask
      uv_texture_gt = uv_gt[:,:3,:,:]
  save_image(uv_texture_gt[0].cpu(), "./dense_uv_texture.png")
  if render_orig and original_image is not None and tform is not None:
      points_scale = [self.image_size, self.image_size]
      _, _, h, w = original_image.shape
      dense_trans_verts = transform_points(dense_trans_verts, tform, points_scale, [h, w])
  ops = self.render.render_dense(dense_vertices, dense_faces, util.face_vertices(dense_uvcoords, dense_uvfaces), dense_trans_verts, uv_texture_gt, None, h=h, w=w, bg_images=background, face_mask=uv_face_eye_mask)
  visdict['rendered_images_detailed'] = ops['images']
  visdict['mask_detailed'] = ops['mask']
  return opdict, visdict
  \<close>
  \<^verbatim>\<open>uv_texture\<close> is read only with the textured-albedo model; without it the compositing
  ignores its last argument.
\<close>

definition decode_dense ::
  "deca \<Rightarrow> (string \<rightharpoonup> real tensor) \<Rightarrow> bool \<Rightarrow> real tensor option \<Rightarrow> real tensor option
     \<Rightarrow> locals \<Rightarrow> vis_locals \<Rightarrow> error + ((string \<rightharpoonup> real tensor) \<times> (string \<times> real tensor) list)"
where
  "decode_dense self codedict render_orig original_image tform L V =
     ebind (upsample_args self (v_opdict V)) (\<lambda>mesh.
     let dense_vertices = call self ''util.upsample_mesh.dense_vertices'' mesh;
         dense_faces = call self ''util.upsample_mesh.dense_faces'' mesh;
         dense_uvcoords = call self ''util.upsample_mesh.dense_uvcoords'' mesh;
         dense_uvfaces = call self ''util.upsample_mesh.dense_uvfaces'' mesh
     in
     ebind (normalize_uvcoords dense_uvcoords) (\<lambda>dense_uvcoords.
     let dense_uvfaces = unsqueeze0 dense_uvfaces;
         dense_vertices = unsqueeze0 dense_vertices
     in
     ebind (lookup codedict ''cam'') (\<lambda>cam.
     ebind (project_points (util_batch_orth_proj self) dense_vertices cam) (\<lambda>dense_trans_verts.
     let dense_faces = unsqueeze0 dense_faces in
     ebind (tmul (call self ''F.grid_sample'' [v_uv_detail_normals V, v_grid V]) (v_alpha_images V))
       (\<lambda>detail_normal_images.
     let detail_face_uvcoords = call self ''util.face_vertices'' [dense_uvcoords, dense_uvfaces];
         visdict =
           [(''hr_inputs'', l_hr_images L),
            (''landmarks2d'', call self ''util.tensor_vis_landmarks'' [v_images V, v_landmarks2d V]),
            (''shape_images'', v_shape_images V),
            (''shape_detail_images'', v_shape_detail_images V),
            (''mask'', call self ''Tensor.repeat(1, 3, 1, 1)'' [v_ops_mask V])];
         visdict = dict_set ''rendered_images'' (v_ops_images V) visdict;
         visdict = dict_set ''mask'' (v_ops_mask V) visdict;
         dense_args = [dense_trans_verts, dense_faces, dense_uvcoords, dense_uvfaces]
     in
     ebind (case codedict ''dense_attributes'' of
              Some attributes \<Rightarrow>
                Inr (call self ''render.world2uv_dense'' (dense_args @ [attributes]), v_opdict V)
            | None \<Rightarrow>
                let uv_pverts = call self ''render.world2uv_dense'' dense_args in
                ebind (batch_size_of dense_vertices) (\<lambda>n.
                ebind (expand_batch n dense_faces) (\<lambda>expanded.
                let dense_face_vertices = call self ''util.face_vertices'' [dense_trans_verts, expanded] in
                Inr (uv_pverts, (v_opdict V)(''dense_attributes'' \<mapsto> dense_face_vertices)))))
       (\<lambda>(uv_pverts, opdict).
     ebind (sample_image self (l_hr_images L) uv_pverts) (\<lambda>(uv_gt, uv_gt_mask).
     ebind (if cfg_use_tex self
            then ebind (local_var ''uv_texture'' (l_uv_texture L)) (\<lambda>uv_texture.
                 texture_compositing True (self_uv_face_eye_mask self) uv_gt uv_gt_mask uv_texture)
            else texture_compositing False (self_uv_face_eye_mask self) uv_gt uv_gt_mask (zeros []))
       (\<lambda>(uv_face_eye_mask, uv_texture_gt).
     ebind (index0 uv_texture_gt) (\<lambda>saved.
     ebind (case (original_image, tform) of
              (Some orig, Some tf) \<Rightarrow>
                if render_orig then
                  ebind (height_width orig) (\<lambda>(h, w).
                  Inr (h, w, transform_points self dense_trans_verts tf h w))
                else Inr (v_h V, v_w V, dense_trans_verts)
            | _ \<Rightarrow> Inr (v_h V, v_w V, dense_trans_verts)) (\<lambda>(h, w, dense_trans_verts).
     let dense_render_args =
           [dense_vertices, dense_faces, call self ''util.face_vertices'' [dense_uvcoords, dense_uvfaces],
            dense_trans_verts, uv_texture_gt, scalar (real h), scalar (real w)]
           @ optional_arg (v_background V) @ [uv_face_eye_mask];
         visdict = dict_set ''rendered_images_detailed''
                     (call self ''render.render_dense.images'' dense_render_args) visdict;
         visdict = dict_set ''mask_detailed''
                     (call self ''render.render_dense.mask'' dense_render_args) visdict
     in
     Inr (opdict, visdict)))))))))))"

subsection \<open>The whole of \<^verbatim>\<open>decode\<close>\<close>

text \<open>
  Between the two blocks stands
  \<^verbatim>\<open>
  if self.cfg.model.use_tex:
      opdict['albedo'] = albedo
  \<close>
  and the function ends with \<^verbatim>\<open>return opdict, visdict\<close> under \<^verbatim>\<open>return_vis\<close> and with
  \<^verbatim>\<open>return opdict\<close> otherwise. The parameter \<^verbatim>\<open>use_detail\<close> is not read.
\<close>

definition decode ::
  "deca \<Rightarrow> (string \<rightharpoonup> real tensor) \<Rightarrow> bool \<Rightarrow> (string \<rightharpoonup> real tensor) option \<Rightarrow> bool \<Rightarrow> bool \<Rightarrow> bool
     \<Rightarrow> bool \<Rightarrow> real tensor option \<Rightarrow> real tensor option
     \<Rightarrow> error + ((string \<rightharpoonup> real tensor) \<times> (string \<times> real tensor) list option)"
where
  "decode self codedict rendering iddict vis_lmk return_vis use_detail render_orig original_image tform =
     ebind (decode_front self codedict) (\<lambda>L.
     ebind (if rendering then decode_rendering self codedict iddict L else Inr L) (\<lambda>L.
     let L = (if cfg_use_tex self then L\<lparr>l_opdict := (l_opdict L)(''albedo'' \<mapsto> l_albedo L)\<rparr> else L) in
     if return_vis then
       ebind (decode_vis self vis_lmk render_orig original_image tform L) (\<lambda>V.
       ebind (decode_dense self codedict render_orig original_image tform L V) (\<lambda>(opdict, visdict).
       Inr (opdict, Some visdict)))
     else Inr (l_opdict L, None)))"

subsection \<open>Notions used to state the properties of \<^verbatim>\<open>decode\<close>\<close>

text \<open>The call fails on an unassigned local variable.\<close>

definition is_unbound :: "error \<Rightarrow> bool" where
  "is_unbound e = (case e of UnboundLocalError name \<Rightarrow> True | _ \<Rightarrow> False)"

definition raises_unbound :: "error + 'a \<Rightarrow> bool" where
  "raises_unbound m = (case m of Inl e \<Rightarrow> is_unbound e | Inr x \<Rightarrow> False)"

text \<open>
  The placement into the original image does not fail: \<^verbatim>\<open>original_image\<close> has four
  dimensions whenever the branch that unpacks its shape is taken.
\<close>

definition placeable :: "bool \<Rightarrow> real tensor option \<Rightarrow> real tensor option \<Rightarrow> bool" where
  "placeable render_orig original_image tform =
     (case (original_image, tform) of
        (Some orig, Some tf) \<Rightarrow> \<not> render_orig \<or> length (shape orig) = 4
      | _ \<Rightarrow> True)"

text \<open>
  A configuration for which the first part of \<^verbatim>\<open>decode\<close> runs through: the shape model
  returns one point, the camera has scale 1, and the parameter dictionary holds every
  key the first part reads.
\<close>

definition one_point_deca :: deca where
  "one_point_deca = two_texel_deca\<lparr>
     cfg_use_tex := False,
     call := (\<lambda>name args.
       if name \<in> {''flame.verts'', ''flame.landmarks2d'', ''flame.landmarks3d''}
       then point_up else scalar 0)\<rparr>"

definition one_point_codedict :: "string \<rightharpoonup> real tensor" where
  "one_point_codedict =
     [''images'' \<mapsto> one_pixel, ''hr_images'' \<mapsto> one_pixel, ''shape'' \<mapsto> scalar 0,
      ''exp'' \<mapsto> scalar 0, ''pose'' \<mapsto> scalar 0, ''cam'' \<mapsto> cam_unit]"

text \<open>
  A configuration for which the whole of \<^verbatim>\<open>decode\<close> runs through, on the two-texel atlas:
  every collaborator returns a tensor of a shape its caller can use.
\<close>

definition live_deca :: deca where
  "live_deca = two_texel_deca\<lparr>
     cfg_use_tex := False,
     render_world2uv_coarse := (\<lambda>t. two_texel_verts),
     call := (\<lambda>name args.
       if name \<in> {''flame.verts'', ''flame.landmarks2d'', ''flame.landmarks3d'',
                   ''render.transformed_normals'', ''util.tensor2image''} then point_up
       else if name = ''D_detail'' then two_texel_zero
       else if name \<in> {''render.world2uv'', ''render.world2uv_dense'', ''F.grid_sample''}
         then zeros [1, 3, 2, 2]
       else if name \<in> {''util.upsample_mesh.dense_vertices'', ''util.upsample_mesh.dense_faces''}
         then \<lparr>shape = [1, 3], data = [0, 1, 0]\<rparr>
       else if name = ''util.upsample_mesh.dense_uvcoords'' then \<lparr>shape = [1, 2], data = [1, 2]\<rparr>
       else scalar 0)\<rparr>"

definition live_codedict :: "string \<rightharpoonup> real tensor" where
  "live_codedict =
     [''images'' \<mapsto> one_pixel, ''hr_images'' \<mapsto> one_pixel, ''shape'' \<mapsto> scalar 0,
      ''exp'' \<mapsto> \<lparr>shape = [1, 1], data = [0]\<rparr>,
      ''pose'' \<mapsto> \<lparr>shape = [1, 6], data = [0, 0, 0, 0, 0, 0]\<rparr>,
      ''cam'' \<mapsto> cam_unit,
      ''detail'' \<mapsto> \<lparr>shape = [1, 1], data = [0]\<rparr>,
      ''light'' \<mapsto> scalar 0]"


section \<open>Facts about tensors\<close>

lemma offset_less: "valid sh idx \<Longrightarrow> offset sh idx < prod_list sh"
proof (induction sh idx rule: offset.induct)
  case (1 d ds i "is")
  then have i: "i < d" and v: "valid ds is" by (simp_all add: valid_def)
  from 1 v have o: "offset ds is < prod_list ds" by simp
  have "i * prod_list ds + offset ds is < i * prod_list ds + prod_list ds" using o by simp
  also have "\<dots> = Suc i * prod_list ds" by simp
  also have "\<dots> \<le> d * prod_list ds" using i by (intro mult_le_mono1) simp
  finally show ?case by simp
qed (simp_all add: valid_def)

lemma unravel_offset: "valid sh idx \<Longrightarrow> unravel sh (offset sh idx) = idx"
proof (induction sh idx rule: offset.induct)
  case (1 d ds i "is")
  then have v: "valid ds is" by (simp add: valid_def)
  then have o: "offset ds is < prod_list ds" by (rule offset_less)
  with 1 v show ?case by simp
qed (simp_all add: valid_def)

lemma valid_unravel: "k < prod_list sh \<Longrightarrow> valid sh (unravel sh k)"
proof (induction sh arbitrary: k)
  case Nil
  then show ?case by (simp add: valid_def)
next
  case (Cons d ds)
  then have p: "0 < prod_list ds" by (cases "prod_list ds = 0") simp_all
  have "k div prod_list ds < d" using Cons.prems p
    by (simp add: less_mult_imp_div_less mult.commute)
  moreover have "valid ds (unravel ds (k mod prod_list ds))"
    using p by (intro Cons.IH) simp
  ultimately show ?case by (simp add: valid_def)
qed

lemma offset_unravel: "k < prod_list sh \<Longrightarrow> offset sh (unravel sh k) = k"
proof (induction sh arbitrary: k)
  case Nil
  then show ?case by simp
next
  case (Cons d ds)
  then have p: "0 < prod_list ds" by (cases "prod_list ds = 0") simp_all
  then have "offset ds (unravel ds (k mod prod_list ds)) = k mod prod_list ds"
    by (intro Cons.IH) simp
  then show ?case by simp
qed

lemma shape_tabulate [simp]: "shape (tabulate sh f) = sh"
  by (simp add: tabulate_def)

lemma wf_tabulate [simp]: "wf (tabulate sh f)"
  by (simp add: tabulate_def wf_def)

lemma elt_tabulate: "valid sh idx \<Longrightarrow> elt (tabulate sh f) idx = f idx"
  by (simp add: elt_def tabulate_def offset_less unravel_offset)

text \<open>Two tensors of one shape are equal when they agree at every valid index.\<close>

lemma tensor_eqI:
  assumes "wf a" "wf b" "shape a = shape b"
    and "\<And>idx. valid (shape a) idx \<Longrightarrow> elt a idx = elt b idx"
  shows "a = (b :: 'a tensor)"
proof -
  have "data a = data b"
  proof (rule nth_equalityI)
    show "length (data a) = length (data b)" using assms by (simp add: wf_def)
  next
    fix k assume "k < length (data a)"
    then have k: "k < prod_list (shape a)" using assms by (simp add: wf_def)
    then have "elt a (unravel (shape a) k) = elt b (unravel (shape a) k)"
      by (intro assms(4) valid_unravel)
    then show "data a ! k = data b ! k"
      using k assms(3) by (simp add: elt_def offset_unravel)
  qed
  then show ?thesis using assms(3) by simp
qed

section \<open>The parameter codec\<close>

subsection \<open>Column blocks and their concatenation\<close>

lemma slice_cols:
  assumes "shape code = [B, W]" "0 \<le> start" "0 \<le> n" "start + n \<le> int W"
  shows "slice_dim 1 (Some start) (Some (start + n)) code = Inr (col_block code (nat start) (nat n))"
proof -
  have "nat (start + n) - nat start = nat n" using assms by linarith
  then show ?thesis using assms
    by (simp add: slice_dim_def norm_index_def col_block_def Let_def min_def)
qed

lemma valid2: "valid [B, W] idx \<longleftrightarrow> (\<exists>b j. idx = [b, j] \<and> b < B \<and> j < W)"
  by (auto simp: valid_def list_all2_Cons2)

lemma elt_col_block: "b < hd (shape code) \<Longrightarrow> j < n \<Longrightarrow> elt (col_block code s n) [b, j] = elt code [b, j + s]"
  by (simp add: col_block_def elt_tabulate valid2)

lemma shape_col_block: "shape (col_block code s n) = [hd (shape code), n]"
  by (simp add: col_block_def)

lemma shapes_blocks_of: "map (\<lambda>u. shape u ! 1) (blocks_of code ws s) = ws"
  by (induction ws arbitrary: s) (simp_all add: col_block_def)

lemma shapes_blocks_of': "u \<in> set (blocks_of code ws s) \<Longrightarrow> \<exists>n. shape u = [hd (shape code), n]"
  by (induction ws arbitrary: s) (auto simp: col_block_def)

lemma located_block:
  "b < hd (shape code) \<Longrightarrow> j < sum_list ws \<Longrightarrow>
   (case locate ws j of (i, j') \<Rightarrow> elt (blocks_of code ws s ! i) [b, j']) = elt code [b, s + j]"
proof (induction ws arbitrary: s j)
  case Nil
  then show ?case by simp
next
  case (Cons n ws)
  show ?case
  proof (cases "j < n")
    case True
    then show ?thesis using Cons.prems by (simp add: elt_col_block add.commute)
  next
    case False
    then have "j - n < sum_list ws" using Cons.prems by simp
    from Cons.IH[OF Cons.prems(1) this, of "s + n"] False show ?thesis
      by (simp split: prod.splits)
  qed
qed

lemma tcat_blocks_of:
  assumes "wf code" "shape code = [B, W]" "sum_list ws = W" "ws \<noteq> []"
  shows "tcat 1 (blocks_of code ws 0) = Inr code"
proof -
  obtain n ws' where ws: "ws = n # ws'" using assms(4) by (cases ws) auto
  have same: "list_all (\<lambda>u. (shape u)[1 := 0] = [B, 0]) (blocks_of code ws 0)"
    using shapes_blocks_of'[of _ code ws 0] assms(2) by (fastforce simp: list_all_iff)
  let ?r = "tabulate [B, W] (\<lambda>idx. case locate ws (idx ! 1) of (i, j) \<Rightarrow> elt (blocks_of code ws 0 ! i) (idx[1 := j]))"
  have "tcat 1 (blocks_of code ws 0) = Inr ?r"
    using same assms(2,3) shapes_blocks_of[of code ws 0]
    by (simp add: tcat_def ws col_block_def)
  moreover have "?r = code"
  proof (rule tensor_eqI)
    fix idx assume "valid (shape ?r) idx"
    then obtain b j where idx: "idx = [b, j]" "b < B" "j < W" by (auto simp: valid2)
    then have "elt ?r idx = (case locate ws j of (i, j') \<Rightarrow> elt (blocks_of code ws 0 ! i) [b, j'])"
      by (simp add: elt_tabulate valid2)
    also have "\<dots> = elt code [b, 0 + j]"
      using idx assms by (intro located_block) simp_all
    finally show "elt ?r idx = elt code idx" using idx by simp
  qed (use assms in simp_all)
  ultimately show ?thesis by simp
qed

lemma flatten1_reshape_light:
  assumes "shape blk = [B, 27]"
  shows "reshape [hd (shape blk), 9, 3] blk = Inr (blk\<lparr>shape := [B, 9, 3]\<rparr>)"
    and "flatten1 (blk\<lparr>shape := [B, 9, 3]\<rparr>) = blk"
  using assms by (simp_all add: reshape_def flatten1_def)

subsection \<open>The loop of \<^verbatim>\<open>decompose_code\<close>\<close>

text \<open>
  When the declared widths are not negative and fit into the matrix, the loop stores,
  under the keys in order, the consecutive column blocks of the declared widths.
\<close>

lemma decompose_loop_blocks:
  assumes "shape code = [B, W]" "distinct (map fst nd)" "list_all (\<lambda>(k, n). 0 \<le> n) nd"
    and "0 \<le> start" "start + sum_list (map snd nd) \<le> int W"
    and "list_all (\<lambda>(k, n). k = ''light'' \<longrightarrow> n = 27) nd"
  shows "\<exists>d. decompose_loop code nd start d0 = Inr d
           \<and> (\<forall>k. k \<notin> fst ` set nd \<longrightarrow> d k = d0 k)
           \<and> dom d = dom d0 \<union> fst ` set nd
           \<and> map (\<lambda>key. block_flat key (the (d key))) (map fst nd)
               = blocks_of code (map (\<lambda>(k, n). nat n) nd) (nat start)
           \<and> (''light'' \<in> fst ` set nd \<longrightarrow> shape (the (d ''light'')) = [B, 9, 3])"
  using assms(2-)
proof (induction nd arbitrary: start d0)
  case Nil
  then show ?case by simp
next
  case (Cons kn rest)
  obtain key n where kn: "kn = (key, n)" by (cases kn)
  let ?blk = "col_block code (nat start) (nat n)"
  have n0: "0 \<le> n" and fresh: "key \<notin> fst ` set rest" and dist: "distinct (map fst rest)"
    using Cons.prems kn by auto
  have sum0: "0 \<le> sum_list (map snd rest)"
    using Cons.prems(2) kn by (fastforce intro!: sum_list_nonneg simp: list_all_iff)
  have fit: "start + n \<le> int W" using Cons.prems(4) kn sum0 by simp
  have sl: "slice_dim 1 (Some start) (Some (start + n)) code = Inr ?blk"
    using assms(1) Cons.prems(3) n0 fit by (rule slice_cols)
  have nxt: "nat (start + n) = nat start + nat n" using Cons.prems(3) n0 by (simp add: nat_add_distrib)
  have shb: "shape ?blk = [B, nat n]" using assms(1) by (simp add: shape_col_block)
  define v where "v = (if key = ''light'' then ?blk\<lparr>shape := [B, 9, 3]\<rparr> else ?blk)"
  have flat: "block_flat key v = ?blk"
  proof (cases "key = ''light''")
    case True
    then have "n = 27" using Cons.prems(5) kn by simp
    then have "shape ?blk = [B, 27]" using shb by simp
    then show ?thesis using True by (simp add: v_def block_flat_def flatten1_reshape_light)
  next
    case False
    then show ?thesis by (simp add: v_def block_flat_def)
  qed
  have step: "decompose_loop code (kn # rest) start d0 = decompose_loop code rest (start + n) (d0(key \<mapsto> v))"
  proof (cases "key = ''light''")
    case True
    then have "n = 27" using Cons.prems(5) kn by simp
    then have "shape ?blk = [B, 27]" using shb by simp
    then have "reshape [hd (shape ?blk), 9, 3] ?blk = Inr (?blk\<lparr>shape := [B, 9, 3]\<rparr>)"
      by (rule flatten1_reshape_light)
    then show ?thesis using True sl by (simp add: kn v_def ebind_def Let_def)
  next
    case False
    then show ?thesis using sl by (simp add: kn v_def ebind_def Let_def)
  qed
  have "\<exists>d. decompose_loop code rest (start + n) (d0(key \<mapsto> v)) = Inr d
           \<and> (\<forall>k. k \<notin> fst ` set rest \<longrightarrow> d k = (d0(key \<mapsto> v)) k)
           \<and> dom d = dom (d0(key \<mapsto> v)) \<union> fst ` set rest
           \<and> map (\<lambda>key. block_flat key (the (d key))) (map fst rest)
               = blocks_of code (map (\<lambda>(k, n). nat n) rest) (nat (start + n))
           \<and> (''light'' \<in> fst ` set rest \<longrightarrow> shape (the (d ''light'')) = [B, 9, 3])"
    using Cons.prems kn n0 dist by (intro Cons.IH) (simp_all add: add.assoc)
  then obtain d where d: "decompose_loop code rest (start + n) (d0(key \<mapsto> v)) = Inr d"
    "\<And>k. k \<notin> fst ` set rest \<Longrightarrow> d k = (d0(key \<mapsto> v)) k"
    "dom d = dom (d0(key \<mapsto> v)) \<union> fst ` set rest"
    "map (\<lambda>key. block_flat key (the (d key))) (map fst rest)
               = blocks_of code (map (\<lambda>(k, n). nat n) rest) (nat (start + n))"
    "''light'' \<in> fst ` set rest \<longrightarrow> shape (the (d ''light'')) = [B, 9, 3]"
    by blast
  have dkey: "d key = Some v" using d(2)[OF fresh] by simp
  have "decompose_loop code (kn # rest) start d0 = Inr d" using step d(1) by simp
  moreover have "\<forall>k. k \<notin> fst ` set (kn # rest) \<longrightarrow> d k = d0 k"
    using d(2) kn by auto
  moreover have "dom d = dom d0 \<union> fst ` set (kn # rest)" using d(3) kn by auto
  moreover have "map (\<lambda>key. block_flat key (the (d key))) (map fst (kn # rest))
               = blocks_of code (map (\<lambda>(k, n). nat n) (kn # rest)) (nat start)"
    using d(4) dkey flat kn nxt by simp
  moreover have "''light'' \<in> fst ` set (kn # rest) \<longrightarrow> shape (the (d ''light'')) = [B, 9, 3]"
  proof (cases "key = ''light''")
    case True
    then show ?thesis using dkey by (simp add: v_def)
  next
    case False
    then show ?thesis using d(5) kn by simp
  qed
  ultimately show ?case by blast
qed

text \<open>
  Claim C1. Let \<open>code\<close> be a flat parameter tensor of shape \<open>(B, W)\<close> and \<open>num_dict\<close> a
  block spec (a non-empty dictionary, so its keys are distinct; widths are not negative,
  and the lighting width is 27, the invariant of the block spec) whose widths sum to
  \<open>W\<close>. Then \<^verbatim>\<open>decompose_code\<close> returns a dictionary with exactly the spec's keys;
  concatenating its blocks along dimension 1 in spec order, the lighting block flattened
  back, gives \<open>code\<close> again; and the lighting block has shape \<open>(B, 9, 3)\<close>.
\<close>

theorem decompose_code_roundtrip:
  assumes "wf code" and "shape code = [B, W]"
    and "num_dict \<noteq> []" and "distinct (map fst num_dict)"
    and "list_all (\<lambda>(key, n). 0 \<le> n \<and> (key = ''light'' \<longrightarrow> n = 27)) num_dict"
    and "sum_list (map snd num_dict) = int W"
  shows "\<exists>code_dict. decompose_code code num_dict = Inr code_dict
           \<and> dom code_dict = fst ` set num_dict
           \<and> tcat 1 (map (\<lambda>key. block_flat key (the (code_dict key))) (map fst num_dict)) = Inr code
           \<and> (''light'' \<in> fst ` set num_dict \<longrightarrow> shape (the (code_dict ''light'')) = [B, 9, 3])"
proof -
  have a: "list_all (\<lambda>(k, n). 0 \<le> n) num_dict" "list_all (\<lambda>(k, n). k = ''light'' \<longrightarrow> n = 27) num_dict"
    using assms(5) by (auto simp: list_all_iff)
  have "\<exists>d. decompose_loop code num_dict 0 Map.empty = Inr d
           \<and> (\<forall>k. k \<notin> fst ` set num_dict \<longrightarrow> d k = Map.empty k)
           \<and> dom d = dom (Map.empty :: string \<rightharpoonup> 'a tensor) \<union> fst ` set num_dict
           \<and> map (\<lambda>key. block_flat key (the (d key))) (map fst num_dict)
               = blocks_of code (map (\<lambda>(k, n). nat n) num_dict) (nat 0)
           \<and> (''light'' \<in> fst ` set num_dict \<longrightarrow> shape (the (d ''light'')) = [B, 9, 3])"
    using assms(6) by (intro decompose_loop_blocks[OF assms(2) assms(4) a(1) _ _ a(2)]) simp_all
  then obtain d where d: "decompose_code code num_dict = Inr d"
    "dom d = fst ` set num_dict"
    "map (\<lambda>key. block_flat key (the (d key))) (map fst num_dict)
               = blocks_of code (map (\<lambda>(k, n). nat n) num_dict) 0"
    "''light'' \<in> fst ` set num_dict \<longrightarrow> shape (the (d ''light'')) = [B, 9, 3]"
    by (auto simp: decompose_code_def)
  have "int (sum_list (map (\<lambda>(k, n). nat n) num_dict)) = sum_list (map snd num_dict)"
    using a(1) by (induction num_dict) auto
  then have "sum_list (map (\<lambda>(k, n). nat n) num_dict) = W" using assms(6) by simp
  then have "tcat 1 (blocks_of code (map (\<lambda>(k, n). nat n) num_dict) 0) = Inr code"
    using assms(1,2,3) by (intro tcat_blocks_of) simp_all
  with d show ?thesis by auto
qed

theorem decompose_code_roundtrip_witness:
  "\<exists>code_dict. decompose_code code30 [(''cam'', 3), (''light'', 27)] = Inr code_dict
     \<and> dom code_dict = {''cam'', ''light''}
     \<and> tcat 1 [the (code_dict ''cam''), flatten1 (the (code_dict ''light''))] = Inr code30
     \<and> shape (the (code_dict ''light'')) = [1, 9, 3]"
  using decompose_code_roundtrip[of code30 1 30 "[(''cam'', 3), (''light'', 27)]"]
  by (simp add: code30_def wf_def block_flat_def)

subsection \<open>No check of the total width\<close>

lemma decompose_loop_light_fits:
  assumes "shape code = [B, W]"
  shows "(light_fits B W start nd \<longrightarrow>
            (\<exists>d. decompose_loop code nd start d0 = Inr d \<and> dom d = dom d0 \<union> fst ` set nd))
       \<and> (\<not> light_fits B W start nd \<longrightarrow> decompose_loop code nd start d0 = Inl RuntimeError)"
proof (induction nd arbitrary: start d0)
  case Nil
  show ?case by simp
next
  case (Cons kn rest)
  obtain key n where kn: "kn = (key, n)" by (cases kn)
  let ?len = "norm_index (start + n) W - norm_index start W"
  obtain blk where sl: "slice_dim 1 (Some start) (Some (start + n)) code = Inr blk"
    and shb: "shape blk = [B, ?len]"
    using assms by (simp add: slice_dim_def Let_def)
  show ?case
  proof (cases "key = ''light''")
    case False
    define d1 where "d1 = d0(key \<mapsto> blk)"
    have dd: "dom d1 = insert key (dom d0)" by (simp add: d1_def)
    have step: "decompose_loop code (kn # rest) start d0 = decompose_loop code rest (start + n) d1"
      using False sl by (simp add: kn ebind_def Let_def d1_def)
    have lf: "light_fits B W start (kn # rest) = light_fits B W (start + n) rest"
      using False by (simp add: kn)
    have ks: "fst ` set (kn # rest) = insert key (fst ` set rest)" by (simp add: kn)
    show ?thesis unfolding step lf ks using Cons.IH[of "start + n" d1] dd by auto
  next
    case True
    show ?thesis
    proof (cases "B * ?len = B * 27")
      case fits: True
      then have rs: "reshape [hd (shape blk), 9, 3] blk = Inr (blk\<lparr>shape := [B, 9, 3]\<rparr>)"
        using shb by (simp add: reshape_def)
      define d1 where "d1 = d0(key \<mapsto> blk\<lparr>shape := [B, 9, 3]\<rparr>)"
      have dd: "dom d1 = insert key (dom d0)" by (simp add: d1_def)
      from rs have step: "decompose_loop code (kn # rest) start d0
                  = decompose_loop code rest (start + n) d1"
        using True sl by (simp add: kn ebind_def Let_def d1_def)
      have lf: "light_fits B W start (kn # rest) = light_fits B W (start + n) rest"
        using fits by (simp add: kn)
      have ks: "fst ` set (kn # rest) = insert key (fst ` set rest)" by (simp add: kn)
      show ?thesis unfolding step lf ks
        using Cons.IH[of "start + n" d1] dd by auto
    next
      case nofit: False
      then have "reshape [hd (shape blk), 9, 3] blk = Inl RuntimeError"
        using shb by (simp add: reshape_def)
      then have step: "decompose_loop code (kn # rest) start d0 = Inl RuntimeError"
        using True sl by (simp add: kn ebind_def Let_def)
      have lf: "\<not> light_fits B W start (kn # rest)" using nofit True by (simp add: kn)
      show ?thesis unfolding step using lf by simp
    qed
  qed
qed

text \<open>
  Claim C2, as the code has it. \<^verbatim>\<open>decompose_code\<close> never compares the width of the
  tensor with the sum of the declared widths. On a matrix it fails in one place only, the
  reshape of the lighting block, with torch's \<open>RuntimeError\<close>, and exactly when the
  lighting slice, clipped to the columns that exist, does not hold \<open>B \<times> 27\<close> elements.
  In every other case it returns a dictionary with the spec's keys, whatever the total
  width is: blocks beyond the last column come out short or empty, and columns beyond the
  declared widths are ignored.
\<close>

theorem decompose_code_no_width_check:
  assumes "shape code = [B, W]"
  shows "(light_fits B W 0 num_dict \<longrightarrow>
            (\<exists>d. decompose_code code num_dict = Inr d \<and> dom d = fst ` set num_dict))
       \<and> (\<not> light_fits B W 0 num_dict \<longrightarrow> decompose_code code num_dict = Inl RuntimeError)"
  using decompose_loop_light_fits[OF assms, of 0 num_dict Map.empty]
  by (simp add: decompose_code_def)

theorem decompose_code_no_width_check_witness:
  "(\<exists>d. decompose_code \<lparr>shape = [1, 2], data = [5, 7 :: int]\<rparr> [(''shape'', 1), (''exp'', 3)] = Inr d
        \<and> dom d = {''shape'', ''exp''})
   \<and> decompose_code \<lparr>shape = [1, 2], data = [5, 7 :: int]\<rparr> [(''cam'', 1), (''light'', 27)] = Inl RuntimeError"
  using decompose_code_no_width_check[of "\<lparr>shape = [1, 2], data = [5, 7 :: int]\<rparr>" 1 2 "[(''shape'', 1), (''exp'', 3)]"]
    decompose_code_no_width_check[of "\<lparr>shape = [1, 2], data = [5, 7 :: int]\<rparr>" 1 2 "[(''cam'', 1), (''light'', 27)]"]
  by (simp add: norm_index_def)

text \<open>
  A tensor of width 2 against declared widths 1 and 3: the call returns, and the second
  block holds the one column that is left.
\<close>

theorem decompose_code_width_mismatch_counterexample:
  "sum_list (map snd [(''shape'', 1), (''exp'', 3 :: int)]) \<noteq> int 2
   \<and> decompose_code \<lparr>shape = [1, 2], data = [5, 7 :: int]\<rparr> [(''shape'', 1), (''exp'', 3)]
       = Inr [''shape'' \<mapsto> \<lparr>shape = [1, 1], data = [5]\<rparr>, ''exp'' \<mapsto> \<lparr>shape = [1, 1], data = [7]\<rparr>]"
  by (simp add: decompose_code_def ebind_def slice_dim_def norm_index_def tabulate_def elt_def)

section \<open>Element-wise operations\<close>

lemma valid4: "valid [B, C, H, W] idx \<longleftrightarrow> (\<exists>b c h w. idx = [b, c, h, w] \<and> b < B \<and> c < C \<and> h < H \<and> w < W)"
  by (auto simp: valid_def list_all2_Cons2)




lemma wf_tmap [simp]: "wf (tmap f t) = wf t" and shape_tmap [simp]: "shape (tmap f t) = shape t"
  by (simp_all add: tmap_def wf_def)

lemma elt_tmap: "wf t \<Longrightarrow> valid (shape t) idx \<Longrightarrow> elt (tmap f t) idx = f (elt t idx)"
  by (simp add: tmap_def elt_def wf_def offset_less)



lemma bcast_index_same: "valid sh idx \<Longrightarrow> bcast_index sh idx = idx"
proof -
  assume "valid sh idx"
  then have "list_all2 (<) idx sh" by (simp add: valid_def)
  then have "map2 (\<lambda>d i. if d = 1 then 0 else i) sh idx = idx"
    by (induction idx sh rule: list_all2_induct) auto
  moreover have "length idx = length sh" using \<open>list_all2 (<) idx sh\<close> by (rule list_all2_lengthD)
  ultimately show ?thesis by (simp add: bcast_index_def)
qed


text \<open>A \<open>(1, 1, H, W)\<close> mask against a \<open>(B, C, H, W)\<close> tensor: the mask is read at its texel.\<close>

lemma binop_mask:
  assumes "shape a = [1, 1, H, W]" "shape b = [B, C, H, W]"
  shows "\<exists>r. binop f a b = Inr r \<and> wf r \<and> shape r = [B, C, H, W]
           \<and> (\<forall>b' c h w. b' < B \<and> c < C \<and> h < H \<and> w < W \<longrightarrow>
                 elt r [b', c, h, w] = f (elt a [0, 0, h, w]) (elt b [b', c, h, w]))"
proof -
  have sh: "bcast_shape [1, 1, H, W] [B, C, H, W] = Some [B, C, H, W]"
    by (auto simp: bcast_shape_def pad_shape_def)
  have ia: "bcast_index [Suc 0, Suc 0, H, W] [b', c, h, w] = [0, 0, h, w]" if "h < H" "w < W" for b' c h w
    using that by (auto simp: bcast_index_def)
  have ib: "bcast_index [B, C, H, W] [b', c, h, w] = [b', c, h, w]"
    if "b' < B" "c < C" "h < H" "w < W" for b' c h w
    using that by (intro bcast_index_same) (simp add: valid4)
  show ?thesis using assms sh
    by (simp add: binop_def elt_tabulate valid4 ia ib)
qed





section \<open>Texture compositing\<close>






lemma compositing_four_channels:
  "texture_compositing True mask_one texel_rgba mask_one texel_synth
     = Inr (mask_one, \<lparr>shape = [1, 3, 1, 1], data = [1/2, 1/4, 3/4]\<rparr>)"
  "texture_compositing True mask_one texel_rgba texel_rgba_valid texel_synth = Inl RuntimeError"
  by code_simp+






text \<open>
  Claim C3, as the code has it. Without the textured-albedo model (\<open>use_tex\<close> false) the
  texture is the sampled colour buffer restricted to its first three channels, the
  synthesized term omitted. The composite mask is still computed (static mask times
  validity buffer, later the renderer's \<^verbatim>\<open>face_mask\<close>), but it is not applied to the
  texture: at every texel, inside or outside the mask, the texture is the sampled colour.
  This holds for the validity buffer of \<^verbatim>\<open>decode\<close> (all channels, \<open>C' = C\<close>) and of
  \<^verbatim>\<open>decode_coarse\<close> (one channel, \<open>C' = 1\<close>).
\<close>

theorem compositing_without_tex:
  assumes "shape face_eye_mask = [1, 1, H, W]" "shape uv_gt = [B, C, H, W]"
    and "shape uv_gt_mask = [B, C', H, W]"
  shows "\<exists>m out. texture_compositing False face_eye_mask uv_gt uv_gt_mask uv_texture = Inr (m, out)
           \<and> tmul face_eye_mask uv_gt_mask = Inr m
           \<and> chan3 uv_gt = Inr out
           \<and> shape out = [B, min C 3, H, W]
           \<and> (\<forall>b c h w. b < B \<and> c < min C 3 \<and> h < H \<and> w < W \<longrightarrow>
                 elt out [b, c, h, w] = elt uv_gt [b, c, h, w])"
proof -
  obtain m where m: "tmul face_eye_mask uv_gt_mask = Inr m"
    using binop_mask[OF assms(1) assms(3), of "(*)"] unfolding tmul_def by blast
  let ?out = "tabulate [B, min C 3, H, W] (\<lambda>idx. elt uv_gt (idx[1 := idx ! 1 + 0]))"
  have c: "chan3 uv_gt = Inr ?out"
    using assms(2) by (simp add: chan3_def slice_dim_def norm_index_def min.commute)
  have "texture_compositing False face_eye_mask uv_gt uv_gt_mask uv_texture = Inr (m, ?out)"
    by (simp add: texture_compositing_def ebind_def m c)
  moreover have "\<forall>b c h w. b < B \<and> c < min C 3 \<and> h < H \<and> w < W \<longrightarrow>
                 elt ?out [b, c, h, w] = elt uv_gt [b, c, h, w]"
    by (simp add: elt_tabulate valid4)
  ultimately show ?thesis using m c by auto
qed

theorem compositing_without_tex_witness:
  "\<exists>m out. texture_compositing False mask_zero texel_gt texel_valid texel_synth = Inr (m, out)
     \<and> tmul mask_zero texel_valid = Inr m \<and> chan3 texel_gt = Inr out \<and> shape out = [1, 3, 1, 1]
     \<and> elt out [0, 1, 0, 0] = elt texel_gt [0, 1, 0, 0]"
proof -
  have "shape mask_zero = [1, 1, 1, 1]" "shape texel_gt = [1, 3, 1, 1]" "shape texel_valid = [1, 3, 1, 1]"
    by (simp_all add: mask_zero_def texel_gt_def texel_valid_def)
  from compositing_without_tex[OF this, of texel_synth] show ?thesis by force
qed

text \<open>
  The static mask is 0 at the only texel, so the composite mask is 0 there, and the
  texture still carries the sampled colour \<open>(1/2, 1/4, 3/4)\<close>.
\<close>

theorem compositing_without_tex_counterexample:
  "texture_compositing False mask_zero texel_gt texel_valid texel_synth
     = Inr (\<lparr>shape = [1, 3, 1, 1], data = [0, 0, 0]\<rparr>, \<lparr>shape = [1, 3, 1, 1], data = [1/2, 1/4, 3/4]\<rparr>)"
  by code_simp


section \<open>Geometric projection\<close>

lemma valid3: "valid [B, N, C] idx \<longleftrightarrow> (\<exists>b n c. idx = [b, n, c] \<and> b < B \<and> n < N \<and> c < C)"
  by (auto simp: valid_def list_all2_Cons2)

lemma batch_orth_proj_elt:
  assumes "shape X = [B, N, 3]" "shape cam = [B, 3]"
  shows "\<exists>p. batch_orth_proj conv X cam = Inr p \<and> wf p \<and> shape p = [B, N, 3]
           \<and> (\<forall>b n c. b < B \<and> n < N \<and> c < 2 \<longrightarrow>
                 elt p [b, n, c] = place conv (elt cam [b, 0]) (elt cam [b, c + 1]) (elt X [b, n, c]))
           \<and> (\<forall>b n. b < B \<and> n < N \<longrightarrow> elt p [b, n, 2] = elt X [b, n, 2])"
  using assms by (simp add: batch_orth_proj_def elt_tabulate valid3 Let_def)

lemma negate_from1_elt:
  assumes "shape p = [B, N, C]"
  shows "\<exists>q. negate_from1 p = Inr q \<and> wf q \<and> shape q = [B, N, C]
           \<and> (\<forall>b n c. b < B \<and> n < N \<and> c < C \<longrightarrow>
                 elt q [b, n, c] = (if 1 \<le> c then - elt p [b, n, c] else elt p [b, n, c]))"
  using assms by (simp add: negate_from1_def elt_tabulate valid3)

text \<open>
  The projected coordinates: the horizontal one is placed by scale and \<open>tx\<close>, the vertical
  one by scale and \<open>ty\<close> and then negated, the depth is negated.
\<close>

lemma project_points_elt:
  assumes "shape X = [B, N, 3]" "shape cam = [B, 3]"
  shows "\<exists>q. project_points (batch_orth_proj conv) X cam = Inr q \<and> wf q \<and> shape q = [B, N, 3]
           \<and> (\<forall>b n. b < B \<and> n < N \<longrightarrow>
                 elt q [b, n, 0] = place conv (elt cam [b, 0]) (elt cam [b, 1]) (elt X [b, n, 0])
               \<and> elt q [b, n, 1] = - place conv (elt cam [b, 0]) (elt cam [b, 2]) (elt X [b, n, 1])
               \<and> elt q [b, n, 2] = - elt X [b, n, 2])"
proof -
  obtain p where p: "batch_orth_proj conv X cam = Inr p" "shape p = [B, N, 3]"
    "\<And>b n c. b < B \<and> n < N \<and> c < 2 \<Longrightarrow>
                 elt p [b, n, c] = place conv (elt cam [b, 0]) (elt cam [b, c + 1]) (elt X [b, n, c])"
    "\<And>b n. b < B \<and> n < N \<Longrightarrow> elt p [b, n, 2] = elt X [b, n, 2]"
    using batch_orth_proj_elt[OF assms, of conv] by blast
  obtain q where q: "negate_from1 p = Inr q" "wf q" "shape q = [B, N, 3]"
    "\<And>b n c. b < B \<and> n < N \<and> c < 3 \<Longrightarrow>
                 elt q [b, n, c] = (if 1 \<le> c then - elt p [b, n, c] else elt p [b, n, c])"
    using negate_from1_elt[OF p(2)] by blast
  have "project_points (batch_orth_proj conv) X cam = Inr q" by (simp add: project_points_def ebind_def p(1) q(1))
  moreover have "elt q [b, n, 0] = place conv (elt cam [b, 0]) (elt cam [b, 1]) (elt X [b, n, 0])
               \<and> elt q [b, n, 1] = - place conv (elt cam [b, 0]) (elt cam [b, 2]) (elt X [b, n, 1])
               \<and> elt q [b, n, 2] = - elt X [b, n, 2]" if "b < B \<and> n < N" for b n
    using that q(4)[of b n 0] q(4)[of b n 1] q(4)[of b n 2] p(3)[of b n 0] p(3)[of b n 1] p(4)[of b n]
    by (simp add: numeral_2_eq_2)
  ultimately show ?thesis using q(2,3) by blast
qed

lemma project_landmarks2d_elt:
  assumes "shape X = [B, N, 3]" "shape cam = [B, 3]"
  shows "\<exists>q. project_landmarks2d (batch_orth_proj conv) X cam = Inr q \<and> wf q \<and> shape q = [B, N, 2]
           \<and> (\<forall>b n. b < B \<and> n < N \<longrightarrow>
                 elt q [b, n, 0] = place conv (elt cam [b, 0]) (elt cam [b, 1]) (elt X [b, n, 0])
               \<and> elt q [b, n, 1] = - place conv (elt cam [b, 0]) (elt cam [b, 2]) (elt X [b, n, 1]))"
proof -
  obtain p where p: "batch_orth_proj conv X cam = Inr p" "shape p = [B, N, 3]"
    "\<And>b n c. b < B \<and> n < N \<and> c < 2 \<Longrightarrow>
                 elt p [b, n, c] = place conv (elt cam [b, 0]) (elt cam [b, c + 1]) (elt X [b, n, c])"
    using batch_orth_proj_elt[OF assms, of conv] by blast
  obtain s where s: "first_two_coords p = Inr s" "shape s = [B, N, 2]"
    and se: "\<And>b n c. b < B \<and> n < N \<and> c < 2 \<Longrightarrow> elt s [b, n, c] = elt p [b, n, c]"
    using p(2) by (simp add: first_two_coords_def slice_dim_def norm_index_def elt_tabulate valid3)
  obtain q where q: "negate_from1 s = Inr q" "wf q" "shape q = [B, N, 2]"
    "\<And>b n c. b < B \<and> n < N \<and> c < 2 \<Longrightarrow>
                 elt q [b, n, c] = (if 1 \<le> c then - elt s [b, n, c] else elt s [b, n, c])"
    using negate_from1_elt[OF s(2)] by blast
  have "project_landmarks2d (batch_orth_proj conv) X cam = Inr q"
    by (simp add: project_landmarks2d_def ebind_def p(1) s(1) q(1))
  moreover have "elt q [b, n, 0] = place conv (elt cam [b, 0]) (elt cam [b, 1]) (elt X [b, n, 0])
               \<and> elt q [b, n, 1] = - place conv (elt cam [b, 0]) (elt cam [b, 2]) (elt X [b, n, 1])" if "b < B \<and> n < N" for b n
    using that q(4)[of b n 0] q(4)[of b n 1] se[of b n 0] se[of b n 1] p(3)[of b n 0] p(3)[of b n 1]
    by (simp add: numeral_2_eq_2)
  ultimately show ?thesis using q(2,3) by blast
qed

lemma negate_vertical_elt:
  assumes "shape X = [B, N, 3]"
  shows "shape (negate_vertical X) = [B, N, 3]"
    and "\<And>b n. b < B \<and> n < N \<Longrightarrow> elt (negate_vertical X) [b, n, 1] = - elt X [b, n, 1]"
  using assms by (simp_all add: negate_vertical_def elt_tabulate valid3)

lemma place_negate: "place conv s t (- x) = - place conv s t x + 2 * place conv s t 0"
  by (cases conv) (simp_all add: place_def algebra_simps)

lemma place_unit: "place conv 1 0 0 = 0" and place_no_shift: "place conv s 0 0 = 0"
  by (cases conv; simp add: place_def)+

text \<open>
  Claim C6, as the projection has it. For vertices and 3D landmarks (\<open>project_points\<close>) and
  for 2D landmarks (\<open>project_landmarks2d\<close>), in either order of scale and translation:
  the projection of a point set of shape \<open>(B, N, 3)\<close> under cameras of shape \<open>(B, 3)\<close>
  returns; a point at the origin under scale 1 and translation \<open>(0, 0)\<close> is sent to
  \<open>(0, 0)\<close>; and negating the vertical input coordinate turns the vertical output \<open>y\<close>
  into \<open>- y - 2 k\<close>, where \<open>k\<close> is what the vertical translation alone contributes (the
  placement of 0). So the vertical output is negated when the vertical translation \<open>ty\<close>
  is 0: the projection is affine in the points, not linear.
\<close>

theorem projection_origin_and_flip:
  assumes "shape X = [B, N, 3]" "shape cam = [B, 3]"
  shows "\<exists>v v' l l'.
           project_points (batch_orth_proj conv) X cam = Inr v
         \<and> project_points (batch_orth_proj conv) (negate_vertical X) cam = Inr v'
         \<and> project_landmarks2d (batch_orth_proj conv) X cam = Inr l
         \<and> project_landmarks2d (batch_orth_proj conv) (negate_vertical X) cam = Inr l'
         \<and> (\<forall>b n. b < B \<and> n < N \<longrightarrow>
               (elt cam [b, 0] = 1 \<and> elt cam [b, 1] = 0 \<and> elt cam [b, 2] = 0
                  \<and> elt X [b, n, 0] = 0 \<and> elt X [b, n, 1] = 0 \<longrightarrow>
                elt v [b, n, 0] = 0 \<and> elt v [b, n, 1] = 0 \<and> elt l [b, n, 0] = 0 \<and> elt l [b, n, 1] = 0)
             \<and> elt v' [b, n, 1] = - elt v [b, n, 1] - 2 * place conv (elt cam [b, 0]) (elt cam [b, 2]) 0
             \<and> elt l' [b, n, 1] = - elt l [b, n, 1] - 2 * place conv (elt cam [b, 0]) (elt cam [b, 2]) 0
             \<and> (elt cam [b, 2] = 0 \<longrightarrow>
                  elt v' [b, n, 1] = - elt v [b, n, 1] \<and> elt l' [b, n, 1] = - elt l [b, n, 1]))"
proof -
  note nv = negate_vertical_elt[OF assms(1)]
  obtain v where v: "project_points (batch_orth_proj conv) X cam = Inr v"
    "\<And>b n. b < B \<and> n < N \<Longrightarrow>
        elt v [b, n, 0] = place conv (elt cam [b, 0]) (elt cam [b, 1]) (elt X [b, n, 0])
      \<and> elt v [b, n, 1] = - place conv (elt cam [b, 0]) (elt cam [b, 2]) (elt X [b, n, 1])"
    using project_points_elt[OF assms, of conv] by blast
  obtain v' where v': "project_points (batch_orth_proj conv) (negate_vertical X) cam = Inr v'"
    "\<And>b n. b < B \<and> n < N \<Longrightarrow>
        elt v' [b, n, 1] = - place conv (elt cam [b, 0]) (elt cam [b, 2]) (elt (negate_vertical X) [b, n, 1])"
    using project_points_elt[OF nv(1) assms(2), of conv] by blast
  obtain l where l: "project_landmarks2d (batch_orth_proj conv) X cam = Inr l"
    "\<And>b n. b < B \<and> n < N \<Longrightarrow>
        elt l [b, n, 0] = place conv (elt cam [b, 0]) (elt cam [b, 1]) (elt X [b, n, 0])
      \<and> elt l [b, n, 1] = - place conv (elt cam [b, 0]) (elt cam [b, 2]) (elt X [b, n, 1])"
    using project_landmarks2d_elt[OF assms, of conv] by blast
  obtain l' where l': "project_landmarks2d (batch_orth_proj conv) (negate_vertical X) cam = Inr l'"
    "\<And>b n. b < B \<and> n < N \<Longrightarrow>
        elt l' [b, n, 1] = - place conv (elt cam [b, 0]) (elt cam [b, 2]) (elt (negate_vertical X) [b, n, 1])"
    using project_landmarks2d_elt[OF nv(1) assms(2), of conv] by blast
  have "(elt cam [b, 0] = 1 \<and> elt cam [b, 1] = 0 \<and> elt cam [b, 2] = 0
                  \<and> elt X [b, n, 0] = 0 \<and> elt X [b, n, 1] = 0 \<longrightarrow>
                elt v [b, n, 0] = 0 \<and> elt v [b, n, 1] = 0 \<and> elt l [b, n, 0] = 0 \<and> elt l [b, n, 1] = 0)
             \<and> elt v' [b, n, 1] = - elt v [b, n, 1] - 2 * place conv (elt cam [b, 0]) (elt cam [b, 2]) 0
             \<and> elt l' [b, n, 1] = - elt l [b, n, 1] - 2 * place conv (elt cam [b, 0]) (elt cam [b, 2]) 0
             \<and> (elt cam [b, 2] = 0 \<longrightarrow>
                  elt v' [b, n, 1] = - elt v [b, n, 1] \<and> elt l' [b, n, 1] = - elt l [b, n, 1])"
    if bn: "b < B \<and> n < N" for b n
    using v(2)[OF bn] v'(2)[OF bn] l(2)[OF bn] l'(2)[OF bn] nv(2)[OF bn]
    by (simp add: place_negate place_unit place_no_shift)
  then show ?thesis using v(1) v'(1) l(1) l'(1) by blast
qed

theorem projection_origin_and_flip_witness:
  "\<exists>v v' l l'.
       project_points (batch_orth_proj TranslateThenScale) point_origin cam_unit = Inr v
     \<and> project_points (batch_orth_proj TranslateThenScale) (negate_vertical point_origin) cam_unit = Inr v'
     \<and> project_landmarks2d (batch_orth_proj TranslateThenScale) point_origin cam_unit = Inr l
     \<and> project_landmarks2d (batch_orth_proj TranslateThenScale) (negate_vertical point_origin) cam_unit = Inr l'
     \<and> elt v [0, 0, 0] = 0 \<and> elt v [0, 0, 1] = 0 \<and> elt l [0, 0, 0] = 0 \<and> elt l [0, 0, 1] = 0
     \<and> elt v' [0, 0, 1] = - elt v [0, 0, 1] \<and> elt l' [0, 0, 1] = - elt l [0, 0, 1]"
proof -
  have s: "shape point_origin = [1, 1, 3]" "shape cam_unit = [1, 3]"
    by (simp_all add: point_origin_def cam_unit_def)
  have e: "elt cam_unit [0, 0] = 1" "elt cam_unit [0, 1] = 0" "elt cam_unit [0, 2] = 0"
    "elt point_origin [0, 0, 0] = 0" "elt point_origin [0, 0, 1] = 0"
    by (simp_all add: point_origin_def cam_unit_def elt_def)
  from projection_origin_and_flip[OF s, of TranslateThenScale] e show ?thesis
    by (elim exE conjE) (intro exI conjI; force)
qed

text \<open>
  The point \<open>(0, 1, 0)\<close> under scale 1 and translation \<open>(0, 1)\<close> has vertical output \<open>-2\<close>;
  with its vertical coordinate negated the vertical output is 0, not 2, in either order
  of scale and translation.
\<close>

theorem projection_flip_counterexample:
  "project_points (batch_orth_proj ScaleThenTranslate) point_up cam_shifted = Inr \<lparr>shape = [1, 1, 3], data = [0, - 2, 0]\<rparr>
   \<and> project_points (batch_orth_proj ScaleThenTranslate) (negate_vertical point_up) cam_shifted
       = Inr \<lparr>shape = [1, 1, 3], data = [0, 0, 0]\<rparr>
   \<and> project_points (batch_orth_proj TranslateThenScale) point_up cam_shifted = Inr \<lparr>shape = [1, 1, 3], data = [0, - 2, 0]\<rparr>
   \<and> project_points (batch_orth_proj TranslateThenScale) (negate_vertical point_up) cam_shifted
       = Inr \<lparr>shape = [1, 1, 3], data = [0, 0, 0]\<rparr>"
  by code_simp


section \<open>Landmark visibility\<close>

lemma depth_from2_elt:
  assumes "shape t = [B, L, 3]"
  shows "\<exists>d. depth_from2 t = Inr d \<and> wf d \<and> shape d = [B, L, 1]
           \<and> (\<forall>b l. b < B \<and> l < L \<longrightarrow> elt d [b, l, 0] = elt t [b, l, 2])"
  using assms by (simp add: depth_from2_def slice_dim_def norm_index_def elt_tabulate valid3 numeral_2_eq_2)

lemma tcat_channel:
  assumes "shape a = [B, L, 3]" "shape v = [B, L, 1]"
  shows "\<exists>r. tcat 2 [a, v] = Inr r \<and> wf r \<and> shape r = [B, L, 4]
           \<and> (\<forall>b l. b < B \<and> l < L \<longrightarrow>
                 (\<forall>c < 3. elt r [b, l, c] = elt a [b, l, c]) \<and> elt r [b, l, 3] = elt v [b, l, 0])"
  using assms by (simp add: tcat_def elt_tabulate valid3)

text \<open>
  Claim C7. Let the selection return the landmark normals as a \<open>(B, L, 3)\<close> tensor (\<open>L\<close> is
  68 for the shape model's landmark set) and let the landmark coordinates have the same
  shape. Then \<^verbatim>\<open>visofp\<close> returns a \<open>(B, L, 1)\<close> tensor of zeros and ones that is 1 at a
  landmark exactly when the depth (third) component of its normal is strictly below 0.1,
  and the concatenation returns the \<open>(B, L, 4)\<close> tensor that holds the coordinates in its
  first three channels and the visibility in the fourth.
\<close>

theorem visofp_threshold:
  assumes "shape (seletec_3d68 normals) = [B, L, 3]" "shape landmarks3d = [B, L, 3]"
  shows "\<exists>vis out.
           visofp seletec_3d68 normals = Inr vis
         \<and> shape vis = [B, L, 1]
         \<and> all_elts (\<lambda>x. x = 0 \<or> x = 1) vis
         \<and> landmarks_with_visibility seletec_3d68 landmarks3d normals = Inr out
         \<and> shape out = [B, L, 4]
         \<and> (\<forall>b l. b < B \<and> l < L \<longrightarrow>
               (elt vis [b, l, 0] = 1 \<longleftrightarrow> elt (seletec_3d68 normals) [b, l, 2] < 1 / 10)
             \<and> (\<forall>c < 3. elt out [b, l, c] = elt landmarks3d [b, l, c])
             \<and> elt out [b, l, 3] = elt vis [b, l, 0])"
proof -
  obtain d where d: "depth_from2 (seletec_3d68 normals) = Inr d" "wf d" "shape d = [B, L, 1]"
    "\<And>b l. b < B \<and> l < L \<Longrightarrow> elt d [b, l, 0] = elt (seletec_3d68 normals) [b, l, 2]"
    using depth_from2_elt[OF assms(1)] by blast
  define vis where "vis = tmap (\<lambda>z. if z < 1 / 10 then 1 else (0 :: real)) d"
  have vis: "visofp seletec_3d68 normals = Inr vis"
    by (simp add: visofp_def ebind_def d(1) vis_def)
  have sv: "shape vis = [B, L, 1]" and wv: "wf vis" using d(2,3) by (simp_all add: vis_def)
  have bin: "all_elts (\<lambda>x. x = 0 \<or> x = 1) vis"
    by (auto simp: vis_def all_elts_def tmap_def list_all_iff)
  have ev: "elt vis [b, l, 0] = (if elt (seletec_3d68 normals) [b, l, 2] < 1 / 10 then 1 else 0)"
    if "b < B \<and> l < L" for b l
    using that d(4)[OF that] d(2,3) by (simp add: vis_def elt_tmap valid3)
  obtain out where out: "tcat 2 [landmarks3d, vis] = Inr out" "shape out = [B, L, 4]"
    "\<And>b l. b < B \<and> l < L \<Longrightarrow>
        (\<forall>c < 3. elt out [b, l, c] = elt landmarks3d [b, l, c]) \<and> elt out [b, l, 3] = elt vis [b, l, 0]"
    using tcat_channel[OF assms(2) sv] by blast
  have "landmarks_with_visibility seletec_3d68 landmarks3d normals = Inr out"
    by (simp add: landmarks_with_visibility_def ebind_def vis out(1))
  moreover have "(elt vis [b, l, 0] = 1 \<longleftrightarrow> elt (seletec_3d68 normals) [b, l, 2] < 1 / 10)
             \<and> (\<forall>c < 3. elt out [b, l, c] = elt landmarks3d [b, l, c])
             \<and> elt out [b, l, 3] = elt vis [b, l, 0]" if "b < B \<and> l < L" for b l
    using ev[OF that] out(3)[OF that] by simp
  ultimately show ?thesis using vis sv bin out(2) by blast
qed

lemma first_two_normals: "first_two two_normals = \<lparr>shape = [1, 2, 3], data = [0, 0, - 1, 0, 0, 1 / 2]\<rparr>"
  by code_simp

theorem visofp_threshold_witness:
  "\<exists>vis out.
       visofp first_two two_normals = Inr vis
     \<and> shape vis = [1, 2, 1]
     \<and> all_elts (\<lambda>x. x = 0 \<or> x = 1) vis
     \<and> landmarks_with_visibility first_two two_landmarks two_normals = Inr out
     \<and> shape out = [1, 2, 4]
     \<and> elt vis [0, 0, 0] = 1 \<and> elt (first_two two_normals) [0, 0, 2] < 1 / 10
     \<and> elt vis [0, 1, 0] \<noteq> 1 \<and> \<not> elt (first_two two_normals) [0, 1, 2] < 1 / 10
     \<and> elt out [0, 1, 2] = elt two_landmarks [0, 1, 2]
     \<and> elt out [0, 1, 3] = elt vis [0, 1, 0]"
proof -
  have s: "shape (first_two two_normals) = [1, 2, 3]" "shape two_landmarks = [1, 2, 3]"
    by (simp_all add: first_two_def two_normals_def two_landmarks_def)
  have e: "elt (first_two two_normals) [0, 0, 2] < 1 / 10" "\<not> elt (first_two two_normals) [0, 1, 2] < 1 / 10"
    by (simp_all add: first_two_normals elt_def)
  from visofp_threshold[of first_two two_normals 1 2 two_landmarks, OF s]
  obtain vis out where r: "visofp first_two two_normals = Inr vis" "shape vis = [1, 2, 1]"
    "all_elts (\<lambda>x. x = 0 \<or> x = 1) vis"
    "landmarks_with_visibility first_two two_landmarks two_normals = Inr out" "shape out = [1, 2, 4]"
    and p: "\<And>b l. b < 1 \<and> l < 2 \<Longrightarrow>
               (elt vis [b, l, 0] = 1 \<longleftrightarrow> elt (first_two two_normals) [b, l, 2] < 1 / 10)
             \<and> (\<forall>c < 3. elt out [b, l, c] = elt two_landmarks [b, l, c])
             \<and> elt out [b, l, 3] = elt vis [b, l, 0]"
    by blast
  have "elt vis [0, 0, 0] = 1" "elt vis [0, 1, 0] \<noteq> 1"
    "elt out [0, 1, 2] = elt two_landmarks [0, 1, 2]" "elt out [0, 1, 3] = elt vis [0, 1, 0]"
    using p[of 0 0] p[of 0 1] e by simp_all
  with r e show ?thesis by blast
qed


section \<open>Displacement to normals\<close>

subsection \<open>Broadcasting, permuting and reshaping rasters\<close>









text \<open>The detail vertices when the displacement is zero.\<close>

subsection \<open>A zero displacement field\<close>





section \<open>The visualization composer\<close>

lemma ebind_Inr_iff: "ebind m f = Inr y \<longleftrightarrow> (\<exists>x. m = Inr x \<and> f x = Inr y)"
  by (cases m) (simp_all add: ebind_def)



















text \<open>The one-pixel image, composed horizontally: channels reversed, scaled by 255, clamped.\<close>

lemma visualize_one_pixel: "visualize single_image_deca [(''inputs'', one_pixel)] 1 2 = Inr \<lparr>shape = [1, 1, 3], data = [0, 127, 255]\<rparr>"
  by code_simp


section \<open>The decode pipeline\<close>

subsection \<open>Where \<open>UnboundLocalError\<close> can come from\<close>

lemma is_unbound_simps [simp]:
  "is_unbound (UnboundLocalError name) = True"
  "is_unbound RuntimeError = False"
  "is_unbound IndexError = False"
  "is_unbound AssertionError = False"
  "is_unbound ZeroDivisionError = False"
  "is_unbound ValueError = False"
  "is_unbound (KeyError key) = False"
  by (simp_all add: is_unbound_def)

lemma raises_unbound_simps [simp]:
  "raises_unbound (Inr x) = False"
  "raises_unbound (Inl e) = is_unbound e"
  by (simp_all add: raises_unbound_def)

lemma raises_unbound_ebind:
  "raises_unbound (ebind m f) \<longleftrightarrow> raises_unbound m \<or> (\<exists>x. m = Inr x \<and> raises_unbound (f x))"
  by (cases m) (simp_all add: ebind_def)

text \<open>None of the tensor operations raises \<open>UnboundLocalError\<close>.\<close>

text \<open>None of the tensor operations raises \<open>UnboundLocalError\<close>.\<close>

lemma nu_lookup [simp]: "\<not> raises_unbound (lookup d key)"
  by (simp add: lookup_def split: option.splits)

lemma nu_slice_dim [simp]: "\<not> raises_unbound (slice_dim k a b t)"
  by (simp add: slice_dim_def Let_def)

lemma nu_reshape [simp]: "\<not> raises_unbound (reshape sh t)"
  by (simp add: reshape_def)

lemma nu_reshape_infer [simp]: "\<not> raises_unbound (reshape_infer pre post t)"
  by (simp add: reshape_infer_def Let_def)

lemma nu_tcat [simp]: "\<not> raises_unbound (tcat k ts)"
  by (simp add: tcat_def split: list.splits)

lemma nu_binop [simp]: "\<not> raises_unbound (binop f a b)"
  by (simp add: binop_def split: option.splits)

lemma nu_tmul [simp]: "\<not> raises_unbound (tmul a b)" and nu_tadd [simp]: "\<not> raises_unbound (tadd a b)"
  by (simp_all add: tmul_def tadd_def)

lemma nu_permute [simp]: "\<not> raises_unbound (permute perm t)"
  by (simp add: permute_def)

lemma nu_small [simp]:
  "\<not> raises_unbound (chan3 t)"
  "\<not> raises_unbound (unsqueeze2 t)"
  "\<not> raises_unbound (expand_batch n t)"
  "\<not> raises_unbound (batch_size_of t)"
  "\<not> raises_unbound (index0 t)"
  "\<not> raises_unbound (from3 t)"
  "\<not> raises_unbound (sample_coords t)"
  "\<not> raises_unbound (first_coord t)"
  "\<not> raises_unbound (first_two_coords t)"
  "\<not> raises_unbound (depth_from2 t)"
  "\<not> raises_unbound (negate_from1 u)"
  "\<not> raises_unbound (np_max u)"
  "\<not> raises_unbound (height_width t)"
  "\<not> raises_unbound (channels_210 t)"
  by (simp_all add: chan3_def unsqueeze2_def expand_batch_def batch_size_of_def index0_def from3_def
        sample_coords_def first_coord_def first_two_coords_def depth_from2_def negate_from1_def
        np_max_def height_width_def channels_210_def split: list.splits)

lemma nu_texture_compositing [simp]:
  "\<not> raises_unbound (texture_compositing use_tex m uv_gt uv_gt_mask uv_texture)"
  by (auto simp: texture_compositing_def raises_unbound_ebind)

lemma nu_detail_vertices [simp]: "\<not> raises_unbound (detail_vertices self uv_z v n)"
  by (auto simp: detail_vertices_def raises_unbound_ebind Let_def)

lemma nu_displacement2normal [simp]: "\<not> raises_unbound (displacement2normal self uv_z v n)"
  by (auto simp: displacement2normal_def displacement2normal_coarse_def raises_unbound_ebind Let_def)

lemma nu_visibility [simp]:
  "\<not> raises_unbound (visofp sel normals)"
  "\<not> raises_unbound (landmarks_with_visibility sel lm normals)"
  by (auto simp: visofp_def landmarks_with_visibility_def raises_unbound_ebind Let_def)

lemma nu_project:
  assumes "\<And>X c. \<not> raises_unbound (proj X c)"
  shows "\<not> raises_unbound (project_points proj X cam)"
    and "\<not> raises_unbound (project_landmarks2d proj X cam)"
  using assms by (auto simp: project_points_def project_landmarks2d_def raises_unbound_ebind)

lemma nu_batch_orth_proj [simp]: "\<not> raises_unbound (batch_orth_proj conv X cam)"
  by (simp add: batch_orth_proj_def split: list.splits)

lemma nu_stage_parts [simp]:
  "\<not> raises_unbound (detail_displacement self posedict codedict)"
  "\<not> raises_unbound (sample_image self hr_images uv_pverts)"
  "\<not> raises_unbound (upsample_args self opdict)"
  "\<not> raises_unbound (normalize_uvcoords t)"
  "\<not> raises_unbound (place_in_original self render_orig original_image tform L)"
  by (auto simp: detail_displacement_def sample_image_def upsample_args_def normalize_uvcoords_def
        place_in_original_def raises_unbound_ebind Let_def split: option.splits)


text \<open>After the first part no variable of the rendering block is assigned.\<close>

subsection \<open>The stages of \<^verbatim>\<open>decode\<close>\<close>

text \<open>After the first part no variable of the rendering block is assigned.\<close>

lemma front_unassigned:
  assumes "decode_front self codedict = Inr L"
  shows "l_uv_texture_gt L = None" "l_uv_face_eye_mask L = None"
    "l_uv_detail_normals L = None" "l_uv_texture L = None"
  using assms by (auto simp: decode_front_def ebind_Inr_iff Let_def)

lemma nu_front:
  assumes "\<And>X c. \<not> raises_unbound (util_batch_orth_proj self X c)"
  shows "\<not> raises_unbound (decode_front self codedict)"
  using nu_project[of "util_batch_orth_proj self", OF assms]
  by (auto simp: decode_front_def raises_unbound_ebind Let_def)

text \<open>The rendering block assigns all four variables.\<close>

text \<open>The rendering block assigns all four variables.\<close>

lemma rendering_assigned:
  assumes "decode_rendering self codedict iddict L = Inr L'"
  shows "l_uv_texture_gt L' \<noteq> None" "l_uv_face_eye_mask L' \<noteq> None"
    "l_uv_detail_normals L' \<noteq> None" "l_uv_texture L' \<noteq> None"
  using assms by (auto simp: decode_rendering_def ebind_Inr_iff Let_def)

lemma nu_rendering: "\<not> raises_unbound (decode_rendering self codedict iddict L)"
  by (auto simp: decode_rendering_def raises_unbound_ebind Let_def split: option.splits)

lemma place_ok:
  assumes "placeable render_orig original_image tform"
  shows "\<exists>V. place_in_original self render_orig original_image tform L = Inr V"
  using assms
  by (auto simp: placeable_def place_in_original_def height_width_def ebind_def Let_def
        split: option.splits list.splits)

text \<open>
  With \<^verbatim>\<open>uv_texture_gt\<close> unassigned, the visualization block fails at the call of the
  renderer, unless the placement into the original image has failed before.
\<close>

lemma vis_unassigned:
  assumes "l_uv_texture_gt L = None"
  shows "decode_vis self vis_lmk render_orig original_image tform L =
           (case place_in_original self render_orig original_image tform L of
              Inl e \<Rightarrow> Inl e
            | Inr V \<Rightarrow> Inl (UnboundLocalError ''uv_texture_gt''))"
  using assms by (simp add: decode_vis_def ebind_def local_var_def split: sum.splits)

lemma nu_vis:
  assumes "l_uv_texture_gt L \<noteq> None" "l_uv_face_eye_mask L \<noteq> None" "l_uv_detail_normals L \<noteq> None"
  shows "\<not> raises_unbound (decode_vis self vis_lmk render_orig original_image tform L)"
  using assms
  by (auto simp: decode_vis_def raises_unbound_ebind local_var_def Let_def)

lemma nu_dense:
  assumes "\<And>X c. \<not> raises_unbound (util_batch_orth_proj self X c)" "l_uv_texture L \<noteq> None"
  shows "\<not> raises_unbound (decode_dense self codedict render_orig original_image tform L V)"
  using nu_project(1)[of "util_batch_orth_proj self", OF assms(1)] assms(2)
  by (auto simp: decode_dense_def raises_unbound_ebind local_var_def Let_def
        split: option.splits)

text \<open>
  Claim C10. With \<^verbatim>\<open>rendering=False\<close> and \<^verbatim>\<open>return_vis=True\<close>, \<^verbatim>\<open>decode\<close> never returns a
  result; when the statements before the call of the renderer run through (the first
  part of \<^verbatim>\<open>decode\<close> and the placement into the original image), the call fails with
  \<open>UnboundLocalError\<close> on \<^verbatim>\<open>uv_texture_gt\<close>, the first unassigned variable it reads. With
  \<^verbatim>\<open>rendering=True\<close>, whatever \<^verbatim>\<open>return_vis\<close> is, \<^verbatim>\<open>decode\<close> never fails with
  \<open>UnboundLocalError\<close>, provided the projection collaborator does not raise that error
  itself: every variable the visualization block reads has been assigned.
\<close>

theorem decode_vis_needs_rendering:
  "(\<forall>r. decode self codedict False iddict vis_lmk True use_detail render_orig original_image tform \<noteq> Inr r)
   \<and> (\<not> isl (decode_front self codedict) \<and> placeable render_orig original_image tform \<longrightarrow>
        decode self codedict False iddict vis_lmk True use_detail render_orig original_image tform
          = Inl (UnboundLocalError ''uv_texture_gt''))
   \<and> ((\<forall>X c. \<not> raises_unbound (util_batch_orth_proj self X c)) \<longrightarrow>
        \<not> raises_unbound
            (decode self codedict True iddict vis_lmk return_vis use_detail render_orig original_image tform))"
proof (intro conjI allI impI)
  let ?off = "decode self codedict False iddict vis_lmk True use_detail render_orig original_image tform"
  have fails: "?off = (case place_in_original self render_orig original_image tform L' of
              Inl e \<Rightarrow> Inl e
            | Inr V \<Rightarrow> Inl (UnboundLocalError ''uv_texture_gt''))"
    if L: "decode_front self codedict = Inr L"
      and L': "L' = (if cfg_use_tex self then L\<lparr>l_opdict := (l_opdict L)(''albedo'' \<mapsto> l_albedo L)\<rparr> else L)"
    for L L'
  proof -
    have "l_uv_texture_gt L' = None" using front_unassigned(1)[OF L] L' by simp
    then have "decode_vis self vis_lmk render_orig original_image tform L' =
           (case place_in_original self render_orig original_image tform L' of
              Inl e \<Rightarrow> Inl e
            | Inr V \<Rightarrow> Inl (UnboundLocalError ''uv_texture_gt''))"
      by (rule vis_unassigned)
    then show ?thesis
      using L L' by (simp add: decode_def ebind_def Let_def split: sum.splits)
  qed
  show "?off \<noteq> Inr r" for r
  proof (cases "decode_front self codedict")
    case (Inl e)
    then show ?thesis by (simp add: decode_def ebind_def)
  next
    case (Inr L)
    from fails[OF Inr refl] show ?thesis by (simp split: sum.splits)
  qed
  show "?off = Inl (UnboundLocalError ''uv_texture_gt'')"
    if "\<not> isl (decode_front self codedict) \<and> placeable render_orig original_image tform"
  proof -
    from that obtain L where L: "decode_front self codedict = Inr L"
      by (cases "decode_front self codedict") auto
    define L' where "L' = (if cfg_use_tex self then L\<lparr>l_opdict := (l_opdict L)(''albedo'' \<mapsto> l_albedo L)\<rparr> else L)"
    from that obtain V where "place_in_original self render_orig original_image tform L' = Inr V"
      using place_ok by blast
    with fails[OF L L'_def] show ?thesis by simp
  qed
  show "\<not> raises_unbound
         (decode self codedict True iddict vis_lmk return_vis use_detail render_orig original_image tform)"
    if proj: "\<forall>X c. \<not> raises_unbound (util_batch_orth_proj self X c)"
  proof
    assume bad: "raises_unbound
         (decode self codedict True iddict vis_lmk return_vis use_detail render_orig original_image tform)"
    have f: "\<not> raises_unbound (decode_front self codedict)" using proj by (intro nu_front) simp
    have "\<exists>L. decode_front self codedict = Inr L"
    proof (cases "decode_front self codedict")
      case (Inl e)
      then have "decode self codedict True iddict vis_lmk return_vis use_detail render_orig original_image tform
                   = Inl e"
        by (simp add: decode_def ebind_def)
      with bad f Inl show ?thesis by simp
    qed blast
    then obtain L where L: "decode_front self codedict = Inr L" by blast
    have "\<not> raises_unbound (decode_rendering self codedict iddict L)" by (rule nu_rendering)
    then have "\<exists>L1. decode_rendering self codedict iddict L = Inr L1"
    proof (cases "decode_rendering self codedict iddict L")
      case (Inl e)
      then have "decode self codedict True iddict vis_lmk return_vis use_detail render_orig original_image tform
                   = Inl e"
        using L by (simp add: decode_def ebind_def)
      with bad Inl show ?thesis using nu_rendering[of self codedict iddict L] by simp
    qed blast
    then obtain L1 where L1: "decode_rendering self codedict iddict L = Inr L1" by blast
    define L2 where "L2 = (if cfg_use_tex self then L1\<lparr>l_opdict := (l_opdict L1)(''albedo'' \<mapsto> l_albedo L1)\<rparr> else L1)"
    have a: "l_uv_texture_gt L2 \<noteq> None" "l_uv_face_eye_mask L2 \<noteq> None"
      "l_uv_detail_normals L2 \<noteq> None" "l_uv_texture L2 \<noteq> None"
      using rendering_assigned[OF L1] by (simp_all add: L2_def)
    have v: "\<not> raises_unbound (decode_vis self vis_lmk render_orig original_image tform L2)"
      using a(1-3) by (rule nu_vis)
    have d: "\<not> raises_unbound (decode_dense self codedict render_orig original_image tform L2 V)" for V
      using proj a(4) by (intro nu_dense) simp_all
    have tail: "\<not> raises_unbound
           (ebind (decode_vis self vis_lmk render_orig original_image tform L2) (\<lambda>V.
            ebind (decode_dense self codedict render_orig original_image tform L2 V) (\<lambda>(opdict, visdict).
            Inr (opdict, Some visdict))))"
      using v d by (auto simp: raises_unbound_ebind)
    have "decode self codedict True iddict vis_lmk return_vis use_detail render_orig original_image tform
            = (if return_vis
               then ebind (decode_vis self vis_lmk render_orig original_image tform L2) (\<lambda>V.
                    ebind (decode_dense self codedict render_orig original_image tform L2 V) (\<lambda>(opdict, visdict).
                    Inr (opdict, Some visdict)))
               else Inr (l_opdict L2, None))"
      using L L1 by (simp add: decode_def ebind_def Let_def L2_def)
    then have "\<not> raises_unbound
         (decode self codedict True iddict vis_lmk return_vis use_detail render_orig original_image tform)"
      using tail by simp
    with bad show False by simp
  qed
qed

theorem decode_vis_needs_rendering_witness:
  "decode one_point_deca one_point_codedict False None True True True False None None
     = Inl (UnboundLocalError ''uv_texture_gt'')
   \<and> \<not> raises_unbound (decode one_point_deca one_point_codedict True None True True True False None None)"
proof -
  have f: "\<not> isl (decode_front one_point_deca one_point_codedict)" by code_simp
  have p: "placeable False None None" by (simp add: placeable_def)
  have u: "\<forall>X c. \<not> raises_unbound (util_batch_orth_proj one_point_deca X c)"
    by (simp add: one_point_deca_def two_texel_deca_def)
  from decode_vis_needs_rendering[of one_point_deca one_point_codedict None True True False None None True]
    f p u
  show ?thesis by blast
qed

text \<open>
  The path with \<^verbatim>\<open>rendering=True\<close> is live: on the two-texel configuration \<^verbatim>\<open>decode\<close>
  returns, with and without the visualization block, and the visualization dictionary
  has its keys in the order of their first assignment.
\<close>

lemma decode_live_run:
  "\<not> isl (decode live_deca live_codedict True None True True True False None None)"
  by code_simp

lemma decode_live_keys:
  "map fst (the (snd (projr (decode live_deca live_codedict True None True True True False None None))))
   = [''hr_inputs'', ''landmarks2d'', ''shape_images'', ''shape_detail_images'', ''mask'',
      ''rendered_images'', ''rendered_images_detailed'', ''mask_detailed'']"
  by code_simp

lemma decode_live_coarse:
  "\<not> isl (decode live_deca live_codedict True None True False True False None None)"
  by code_simp


end
